theory Spec2Isabelle
  imports Complex_Main
begin

section \<open>Numeric cells\<close>

text \<open>
  The engine computes with Python floats read from numeric table columns. A column
  cell is either a number or the missing marker NaN that the loader's numeric coercion
  produces. Numbers are modelled as reals (rounding and infinities are not
  modelled); NaN is a value of its own that every arithmetic operation propagates
  and every comparison answers with False, as IEEE arithmetic does.
\<close>

datatype num = Num real | NaN

instantiation num :: comm_monoid_add
begin

definition zero_num :: num where
  "0 = Num 0"

definition plus_num :: "num \<Rightarrow> num \<Rightarrow> num" where
  "a + b = (case a of Num x \<Rightarrow> (case b of Num y \<Rightarrow> Num (x + y) | NaN \<Rightarrow> NaN) | NaN \<Rightarrow> NaN)"

instance
  by standard (auto simp: zero_num_def plus_num_def split: num.splits)

end

instantiation num :: comm_monoid_mult
begin

definition one_num :: num where
  "1 = Num 1"

definition times_num :: "num \<Rightarrow> num \<Rightarrow> num" where
  "a * b = (case a of Num x \<Rightarrow> (case b of Num y \<Rightarrow> Num (x * y) | NaN \<Rightarrow> NaN) | NaN \<Rightarrow> NaN)"

instance
  by standard (auto simp: one_num_def times_num_def split: num.splits)

end

instantiation num :: minus
begin

definition minus_num :: "num \<Rightarrow> num \<Rightarrow> num" where
  "a - b = (case a of Num x \<Rightarrow> (case b of Num y \<Rightarrow> Num (x - y) | NaN \<Rightarrow> NaN) | NaN \<Rightarrow> NaN)"

instance ..

end

text \<open>\<^verbatim>\<open>pd.isna(x)\<close> and \<^verbatim>\<open>pd.notna(x)\<close> on a float.\<close>

fun isna :: "num \<Rightarrow> bool" where
  "isna NaN = True"
| "isna (Num x) = False"

text \<open>Python truthiness of a float: \<^verbatim>\<open>not x\<close> holds exactly for zero; NaN is truthy.\<close>

fun falsy :: "num \<Rightarrow> bool" where
  "falsy (Num x) = (x = 0)"
| "falsy NaN = False"

text \<open>The comparisons \<^verbatim>\<open>a > b\<close> and \<^verbatim>\<open>a <= b\<close>; False as soon as NaN takes part.\<close>

fun gt :: "num \<Rightarrow> num \<Rightarrow> bool" where
  "gt (Num x) (Num y) = (x > y)"
| "gt _ _ = False"

fun le :: "num \<Rightarrow> num \<Rightarrow> bool" where
  "le (Num x) (Num y) = (x \<le> y)"
| "le _ _ = False"

datatype error = UnknownAssemblySite string | ZeroDivisionError

text \<open>
  Float division \<^verbatim>\<open>a / b\<close>. Python raises ZeroDivisionError on a zero divisor; the
  model keeps that as an error value, so that every division site of the engine has
  to be shown to be guarded.
\<close>

fun fdiv :: "num \<Rightarrow> num \<Rightarrow> error + num" where
  "fdiv (Num x) (Num y) = (if y = 0 then Inl ZeroDivisionError else Inr (Num (x / y)))"
| "fdiv NaN (Num y) = (if y = 0 then Inl ZeroDivisionError else Inr NaN)"
| "fdiv _ NaN = Inr NaN"

text \<open>
  Python's builtin \<^verbatim>\<open>max\<close> on a non-empty list: it keeps the first item and replaces
  it by a later one only when that one compares greater.
\<close>

definition py_max :: "num \<Rightarrow> num list \<Rightarrow> num" where
  "py_max x xs = foldl (\<lambda>m y. if gt y m then y else m) x xs"

section \<open>Text cells\<close>

text \<open>
  A text cell of a table is a string, or missing (\<open>None\<close>, pandas' NaN). The
  elementwise comparison \<^verbatim>\<open>column == value\<close> is False wherever either side is
  missing.
\<close>

type_synonym cell = "string option"

definition cell_eq :: "cell \<Rightarrow> cell \<Rightarrow> bool" where
  "cell_eq a b = (a \<noteq> None \<and> a = b)"

section \<open>Currency conversion\<close>

text \<open>
  \<^verbatim>\<open>fx_rates\<close> is the FX table indexed by currency code: a Series read with
  \<^verbatim>\<open>fx_rates.get(code, default)\<close>.
\<close>

type_synonym fx_rates = "string \<rightharpoonup> num"

definition fx_get :: "fx_rates \<Rightarrow> string \<Rightarrow> num \<Rightarrow> num" where
  "fx_get fx code dflt = (case fx code of None \<Rightarrow> dflt | Some r \<Rightarrow> r)"

definition usd_to_chf :: "num \<Rightarrow> fx_rates \<Rightarrow> error + num" where
  "usd_to_chf amount_usd fx =
     (if isna amount_usd then Inr (Num 0)
      else let usd_per_chf = fx_get fx ''CHF'' (Num 1)
           in if falsy usd_per_chf then Inr (Num 0)
              else fdiv amount_usd usd_per_chf)"

definition local_to_chf :: "num \<Rightarrow> string \<Rightarrow> fx_rates \<Rightarrow> error + num" where
  "local_to_chf amount currency fx =
     (if isna amount then Inr (Num 0)
      else let usd_per_unit = fx_get fx currency (fx_get fx ''USD'' (Num 1));
               amount_usd = amount * usd_per_unit
           in usd_to_chf amount_usd fx)"

section \<open>Tariff resolver\<close>

text \<open>
  A row of the override table (\<^verbatim>\<open>tariff_inputs\<close>) after its two rate columns went
  through \<^verbatim>\<open>pd.to_numeric(..., errors="coerce")\<close>, and a row of the US schedule
  (\<^verbatim>\<open>Tariffs_US\<close>). Dates are compared for equality only and printed into the
  provenance label, so a date is modelled by its printed form.
\<close>

record tariff_input =
  ComponentClass :: cell
  OriginCountry :: cell
  DefaultRate_pct :: num
  UserRate_pct :: num

record us_tariff =
  ScenarioDate :: string
  ComponentClass :: cell
  OriginCountry :: cell
  US_AdValoremTariff_pct :: num

text \<open>
  \<^verbatim>\<open>candidate\<close> and \<^verbatim>\<open>scenario_match\<close> are the rows selected by the boolean
  masks, in table order; \<^verbatim>\<open>.iloc[0]\<close> reads the first of them. An empty override
  table selects nothing.
\<close>

definition candidate_rows :: "cell \<Rightarrow> cell \<Rightarrow> tariff_input list \<Rightarrow> tariff_input list" where
  "candidate_rows component_class origin_country tariff_inputs =
     filter (\<lambda>r. cell_eq (tariff_input.ComponentClass r) component_class
                \<and> cell_eq (tariff_input.OriginCountry r) origin_country) tariff_inputs"

definition scenario_rows :: "cell \<Rightarrow> cell \<Rightarrow> string \<Rightarrow> us_tariff list \<Rightarrow> us_tariff list" where
  "scenario_rows component_class origin_country scenario_date tariffs_us =
     filter (\<lambda>r. ScenarioDate r = scenario_date
                \<and> cell_eq (us_tariff.ComponentClass r) component_class
                \<and> cell_eq (us_tariff.OriginCountry r) origin_country) tariffs_us"

text \<open>\<^verbatim>\<open>float(x) / 100.0\<close>: division by a non-zero literal, which cannot raise.\<close>

fun pct :: "num \<Rightarrow> num" where
  "pct (Num x) = Num (x / 100)"
| "pct NaN = NaN"

definition compute_tariff_rate ::
  "cell \<Rightarrow> cell \<Rightarrow> string \<Rightarrow> tariff_input list \<Rightarrow> us_tariff list \<Rightarrow> num \<times> string" where
  "compute_tariff_rate component_class origin_country scenario_date tariff_inputs tariffs_us =
     (let candidate = candidate_rows component_class origin_country tariff_inputs;
          scenario_match = scenario_rows component_class origin_country scenario_date tariffs_us
      in if candidate \<noteq> [] \<and> \<not> isna (UserRate_pct (hd candidate))
         then (pct (UserRate_pct (hd candidate)), ''Override'')
         else if scenario_match \<noteq> [] \<and> \<not> isna (US_AdValoremTariff_pct (hd scenario_match))
         then (pct (US_AdValoremTariff_pct (hd scenario_match)), ''Scenario '' @ scenario_date)
         else if candidate \<noteq> [] \<and> \<not> isna (DefaultRate_pct (hd candidate))
         then (pct (DefaultRate_pct (hd candidate)), ''Default'')
         else (Num 0, ''None''))"

section \<open>Reference tables\<close>

text \<open>
  The tables \<^verbatim>\<open>compute_costs\<close> reads from \<^verbatim>\<open>data\<close>. A table that the code
  indexes by its key column (\<^verbatim>\<open>set_index\<close>: Products by SKU, Sites by SiteID, FX by
  Currency) is a map from the key, so a key names one row; every other table is the
  list of its rows in table order. A record field is a column of the table, with the
  type the loader coerces it to. The loader creates every numeric column the engine
  reads, so the defaults of \<^verbatim>\<open>row.get(column, default)\<close> are not reached for them.
  The Yield column of AssemblyOptions alone is kept optional, so that both ways of a
  yield being absent have a case of their own: \<open>None\<close> is a row without that
  field, for which \<^verbatim>\<open>option_row.get("Yield", 1.0)\<close> answers with its default;
  a blank cell is the missing marker, as in every numeric column.
\<close>

record product =
  UnitWeight_kg :: num
  ListPrice_USD :: num

record bom_line =
  ParentSKU :: cell
  PartID :: cell
  Qty :: num

record component =
  PartID :: cell
  Class :: cell
  UnitWeight_kg :: num
  BasePrice_local :: num
  OriginSiteID :: cell

record site =
  Country :: cell
  Role :: cell

record assembly_option =
  SKU :: cell
  AssemblySiteID :: cell
  BaseConvCost_USD :: num
  ScrapRate :: num
  Yield :: "num option"

record lane =
  FromCountry :: cell
  ToCountry :: cell
  Cost_per_kg_USD :: num
  Fixed_per_shipment_USD :: num
  LeadTime_days :: num

record data =
  Products :: "string \<rightharpoonup> product"
  BOM :: "bom_line list"
  Components :: "component list"
  Sites :: "string \<rightharpoonup> site"
  AssemblyOptions :: "assembly_option list"
  LogisticsLanes :: "lane list"
  Tariffs_US :: "us_tariff list"
  FX :: fx_rates

definition TARGET_SKUS :: "string list" where
  "TARGET_SKUS = [''ACTUATOR_AX100'', ''ACTUATOR_AX200'']"

definition COUNTRY_TO_CURRENCY :: "(string \<times> string) list" where
  "COUNTRY_TO_CURRENCY =
     [(''Switzerland'', ''CHF''), (''China'', ''CNY''), (''Serbia'', ''RSD''),
      (''United States'', ''USD''), (''Mexico'', ''MXN''), (''Germany'', ''EUR'')]"

text \<open>The two fields of \<^verbatim>\<open>US_CUSTOMER_NODE\<close> that the engine reads.\<close>

definition US_CUSTOMER_NODE_SiteID :: string where
  "US_CUSTOMER_NODE_SiteID = ''US_CUSTOMER''"

definition US_CUSTOMER_NODE_Role :: string where
  "US_CUSTOMER_NODE_Role = ''Customer demand''"

text \<open>\<^verbatim>\<open>COUNTRY_TO_CURRENCY.get(origin_country, "USD")\<close>; a missing country is no key.\<close>

definition currency_of :: "cell \<Rightarrow> string" where
  "currency_of origin_country =
     (case origin_country of
        None \<Rightarrow> ''USD''
      | Some c \<Rightarrow> (case map_of COUNTRY_TO_CURRENCY c of None \<Rightarrow> ''USD'' | Some cur \<Rightarrow> cur))"

subsection \<open>The merged component table\<close>

text \<open>
  \<^verbatim>\<open>components_df\<close> is Components left-merged with the sites on
  \<^verbatim>\<open>OriginSiteID\<close>, which adds the origin's country as \<^verbatim>\<open>ComponentOrigin\<close>
  (missing when the site is unknown). \<^verbatim>\<open>bom_components\<close> is the SKU's BOM lines
  left-merged with that on \<^verbatim>\<open>PartID\<close>: one row per matching component, in table
  order, and one row with every component column missing for a line that matches
  none. A merge pairs equal keys, missing keys included.
\<close>

record bom_component =
  PartID :: cell
  Qty :: num
  Class :: cell
  UnitWeight_kg :: num
  BasePrice_local :: num
  OriginSiteID :: cell
  ComponentOrigin :: cell

definition component_origin :: "data \<Rightarrow> component \<Rightarrow> cell" where
  "component_origin d c =
     (case component.OriginSiteID c of
        None \<Rightarrow> None
      | Some s \<Rightarrow> (case Sites d s of None \<Rightarrow> None | Some st \<Rightarrow> Country st))"

definition joined :: "data \<Rightarrow> bom_line \<Rightarrow> component \<Rightarrow> bom_component" where
  "joined d b c =
     \<lparr>bom_component.PartID = bom_line.PartID b, Qty = bom_line.Qty b,
      Class = component.Class c, UnitWeight_kg = component.UnitWeight_kg c,
      BasePrice_local = component.BasePrice_local c,
      OriginSiteID = component.OriginSiteID c, ComponentOrigin = component_origin d c\<rparr>"

definition unresolved :: "bom_line \<Rightarrow> bom_component" where
  "unresolved b =
     \<lparr>bom_component.PartID = bom_line.PartID b, Qty = bom_line.Qty b,
      Class = None, UnitWeight_kg = NaN, BasePrice_local = NaN,
      OriginSiteID = None, ComponentOrigin = None\<rparr>"

definition merge_line :: "data \<Rightarrow> bom_line \<Rightarrow> bom_component list" where
  "merge_line d b =
     (let ms = filter (\<lambda>c. component.PartID c = bom_line.PartID b) (Components d)
      in if ms = [] then [unresolved b] else map (joined d b) ms)"

definition sku_bom :: "data \<Rightarrow> string \<Rightarrow> bom_line list" where
  "sku_bom d sku = filter (\<lambda>b. cell_eq (ParentSKU b) (Some sku)) (BOM d)"

definition bom_components :: "data \<Rightarrow> string \<Rightarrow> bom_component list" where
  "bom_components d sku = concat (map (merge_line d) (sku_bom d sku))"

definition lane_rows :: "cell \<Rightarrow> cell \<Rightarrow> lane list \<Rightarrow> lane list" where
  "lane_rows from_country to_country lanes =
     filter (\<lambda>l. cell_eq (FromCountry l) from_country \<and> cell_eq (ToCountry l) to_country) lanes"

section \<open>Cost engine\<close>

text \<open>Sequencing of steps that may raise: the first error ends the computation.\<close>

definition and_then :: "error + 'a \<Rightarrow> ('a \<Rightarrow> error + 'b) \<Rightarrow> error + 'b" where
  "and_then r f = (case r of Inl e \<Rightarrow> Inl e | Inr v \<Rightarrow> f v)"

text \<open>
  The flow entry built per BOM line, and the flow record that reaches the output:
  the entry with its \<^verbatim>\<open>cost_share\<close> set.
\<close>

record flow_entry =
  SKU :: string
  component :: cell
  from_site :: cell
  to_site :: string
  from_country :: cell
  to_country :: cell
  from_role :: cell
  to_role :: cell
  tariff_rate :: num
  tariff_source :: string
  cost_value :: num

record flow_record = flow_entry +
  cost_share :: num

text \<open>The accumulators of the loop over the BOM lines of one SKU.\<close>

record totals =
  material_total :: num
  inbound_logistics_total :: num
  component_tariffs_total :: num
  component_leads :: "num list"
  component_flow_entries :: "flow_entry list"

definition totals0 :: totals where
  "totals0 =
     \<lparr>material_total = Num 0, inbound_logistics_total = Num 0, component_tariffs_total = Num 0,
      component_leads = [], component_flow_entries = []\<rparr>"

text \<open>
  The cost in USD of moving \<open>weight\<close> over a lane: per-kilogram cost, plus the fixed
  fee over 10000 when fees are included. The engine writes this out twice, for the
  inbound and for the outbound leg.
\<close>

fun div10000 :: "num \<Rightarrow> num" where
  "div10000 (Num x) = Num (x / 10000)"
| "div10000 NaN = NaN"

definition lane_cost_usd :: "lane \<Rightarrow> num \<Rightarrow> bool \<Rightarrow> num" where
  "lane_cost_usd lane_row weight include_fixed_fees =
     (let cost_usd = Cost_per_kg_USD lane_row * weight
      in if include_fixed_fees then cost_usd + div10000 (Fixed_per_shipment_USD lane_row)
         else cost_usd)"

text \<open>
  The origin of a BOM line: the country from the merge, replaced by the site's own
  country and role when \<^verbatim>\<open>origin_site in origin_info.index\<close>.
\<close>

definition origin_of :: "data \<Rightarrow> bom_component \<Rightarrow> cell \<times> cell" where
  "origin_of d bom_row =
     (case bom_component.OriginSiteID bom_row of
        None \<Rightarrow> (ComponentOrigin bom_row, None)
      | Some s \<Rightarrow> (case Sites d s of
                     None \<Rightarrow> (ComponentOrigin bom_row, None)
                   | Some st \<Rightarrow> (Country st, Role st)))"

text \<open>The inbound leg of one BOM line: logistics cost and lead time.\<close>

definition inbound_leg :: "data \<Rightarrow> bool \<Rightarrow> cell \<Rightarrow> cell \<Rightarrow> num \<Rightarrow> error + (num \<times> num)" where
  "inbound_leg d include_fixed_fees origin_country assembly_country component_weight =
     (let lane_match = lane_rows origin_country assembly_country (LogisticsLanes d)
      in if lane_match \<noteq> []
         then and_then
                (usd_to_chf (lane_cost_usd (hd lane_match) component_weight include_fixed_fees) (FX d))
                (\<lambda>logistics_cost. Inr (logistics_cost, lane.LeadTime_days (hd lane_match)))
         else Inr (Num 0, Num 0))"

text \<open>The tariff of one BOM line.\<close>

definition component_tariff ::
  "data \<Rightarrow> string \<Rightarrow> tariff_input list \<Rightarrow> cell \<Rightarrow> cell \<Rightarrow> cell \<Rightarrow> num \<times> string" where
  "component_tariff d scenario_date tariff_inputs assembly_country component_class origin_country =
     (if assembly_country = Some ''United States''
      then compute_tariff_rate component_class origin_country scenario_date tariff_inputs
             (Tariffs_US d)
      else (Num 0, ''Outside US''))"

text \<open>One pass of the loop over \<^verbatim>\<open>bom_components.iterrows()\<close>.\<close>

definition component_step ::
  "data \<Rightarrow> string \<Rightarrow> string \<Rightarrow> tariff_input list \<Rightarrow> bool \<Rightarrow> cell \<Rightarrow> cell \<Rightarrow> string \<Rightarrow> num
     \<Rightarrow> totals \<Rightarrow> bom_component \<Rightarrow> error + totals" where
  "component_step d scenario_date assembly_site_id tariff_inputs include_fixed_fees
       assembly_country assembly_role sku yield_rate acc bom_row =
     and_then (fdiv (bom_component.Qty bom_row) yield_rate) (\<lambda>quantity.
       let unit_weight = bom_component.UnitWeight_kg bom_row;
           component_weight = quantity * unit_weight;
           origin_site = bom_component.OriginSiteID bom_row;
           origin_country = fst (origin_of d bom_row);
           origin_role = snd (origin_of d bom_row);
           currency = currency_of origin_country;
           base_price_local = bom_component.BasePrice_local bom_row
       in and_then (local_to_chf (base_price_local * quantity) currency (FX d)) (\<lambda>material_cost.
          and_then (inbound_leg d include_fixed_fees origin_country assembly_country
                      component_weight) (\<lambda>(logistics_cost, lead_time).
            let tariff = component_tariff d scenario_date tariff_inputs assembly_country
                           (bom_component.Class bom_row) origin_country;
                component_tariff_value = material_cost * fst tariff;
                flow_entry =
                  \<lparr>SKU = sku, component = bom_component.PartID bom_row, from_site = origin_site,
                   to_site = assembly_site_id, from_country = origin_country,
                   to_country = assembly_country, from_role = origin_role,
                   to_role = assembly_role, tariff_rate = fst tariff,
                   tariff_source = snd tariff,
                   cost_value = material_cost + logistics_cost + component_tariff_value\<rparr>
            in Inr \<lparr>material_total = material_total acc + material_cost,
                    inbound_logistics_total = inbound_logistics_total acc + logistics_cost,
                    component_tariffs_total = component_tariffs_total acc + component_tariff_value,
                    component_leads = component_leads acc @ [lead_time],
                    component_flow_entries = component_flow_entries acc @ [flow_entry]\<rparr>)))"

fun component_loop ::
  "data \<Rightarrow> string \<Rightarrow> string \<Rightarrow> tariff_input list \<Rightarrow> bool \<Rightarrow> cell \<Rightarrow> cell \<Rightarrow> string \<Rightarrow> num
     \<Rightarrow> totals \<Rightarrow> bom_component list \<Rightarrow> error + totals" where
  "component_loop d scenario_date assembly_site_id tariff_inputs include_fixed_fees
       assembly_country assembly_role sku yield_rate acc [] = Inr acc"
| "component_loop d scenario_date assembly_site_id tariff_inputs include_fixed_fees
       assembly_country assembly_role sku yield_rate acc (bom_row # bom_rows) =
     and_then (component_step d scenario_date assembly_site_id tariff_inputs include_fixed_fees
                 assembly_country assembly_role sku yield_rate acc bom_row)
       (\<lambda>acc'. component_loop d scenario_date assembly_site_id tariff_inputs include_fixed_fees
                 assembly_country assembly_role sku yield_rate acc' bom_rows)"

subsection \<open>One SKU\<close>

text \<open>
  \<^verbatim>\<open>s.replace(old, new)\<close> for a non-empty \<open>old\<close>: every occurrence, scanning from
  the left, is replaced. The engine uses it to drop the prefix of the SKU names.
\<close>

function str_replace :: "string \<Rightarrow> string \<Rightarrow> string \<Rightarrow> string" where
  "str_replace old new [] = []"
| "str_replace old new (c # cs) =
     (if old \<noteq> [] \<and> take (length old) (c # cs) = old
      then new @ str_replace old new (drop (length old) (c # cs))
      else c # str_replace old new cs)"
  by pat_completeness auto
termination
  by (relation "measure (\<lambda>(old, new, s). length s)") auto

record breakdown_row =
  ScenarioDate :: string
  AssemblySite :: string
  SKU_Display :: string
  MaterialCost_CHF :: num
  InboundLogistics_CHF :: num
  OutboundLogistics_CHF :: num
  Tariffs_CHF :: num
  ConversionCost_CHF :: num
  LandedCost_CHF :: num
  ListPrice_CHF :: num
  Margin_CHF :: num
  MarginPct :: num
  LeadTime_days :: num

record summary_row = breakdown_row +
  SKU :: string

text \<open>\<^verbatim>\<open>option_row.get("Yield", 1.0)\<close>, replaced by 1.0 when falsy.\<close>

definition yield_rate_of :: "assembly_option \<Rightarrow> num" where
  "yield_rate_of option_row =
     (let yield_rate = (case Yield option_row of None \<Rightarrow> Num 1 | Some y \<Rightarrow> y)
      in if falsy yield_rate then Num 1 else yield_rate)"

definition option_rows :: "data \<Rightarrow> string \<Rightarrow> string \<Rightarrow> assembly_option list" where
  "option_rows d sku assembly_site_id =
     filter (\<lambda>r. cell_eq (assembly_option.SKU r) (Some sku)
                \<and> cell_eq (AssemblySiteID r) (Some assembly_site_id)) (AssemblyOptions d)"

text \<open>The outbound leg of the finished good: logistics cost and lead time.\<close>

definition outbound_leg :: "data \<Rightarrow> bool \<Rightarrow> cell \<Rightarrow> product \<Rightarrow> error + (num \<times> num)" where
  "outbound_leg d include_fixed_fees assembly_country sku_product =
     (let outbound_lane = lane_rows assembly_country (Some ''United States'') (LogisticsLanes d)
      in if outbound_lane \<noteq> []
         then and_then
                (usd_to_chf (lane_cost_usd (hd outbound_lane) (product.UnitWeight_kg sku_product)
                               include_fixed_fees) (FX d))
                (\<lambda>outbound_cost. Inr (outbound_cost, lane.LeadTime_days (hd outbound_lane)))
         else Inr (Num 0, Num 0))"

definition final_tariff ::
  "data \<Rightarrow> string \<Rightarrow> tariff_input list \<Rightarrow> cell \<Rightarrow> num \<times> string" where
  "final_tariff d scenario_date tariff_inputs assembly_country =
     (if assembly_country \<noteq> Some ''United States''
      then compute_tariff_rate (Some ''FinalAssembly'') assembly_country scenario_date
             tariff_inputs (Tariffs_US d)
      else (Num 0, ''Domestic''))"

text \<open>\<^verbatim>\<open>value / landed_cost if landed_cost else 0.0\<close>, and the margin likewise.\<close>

definition ratio_or_zero :: "num \<Rightarrow> num \<Rightarrow> error + num" where
  "ratio_or_zero v whole = (if falsy whole then Inr (Num 0) else fdiv v whole)"

text \<open>
  The loop over \<^verbatim>\<open>component_flow_entries\<close>: an entry with \<^verbatim>\<open>cost_value <= 0\<close> is
  skipped, every other one gets its share and is appended to the flow records.
\<close>

fun share_entries :: "num \<Rightarrow> flow_entry list \<Rightarrow> error + flow_record list" where
  "share_entries landed_cost [] = Inr []"
| "share_entries landed_cost (entry # entries) =
     (if le (cost_value entry) (Num 0) then share_entries landed_cost entries
      else and_then (ratio_or_zero (cost_value entry) landed_cost) (\<lambda>share.
           and_then (share_entries landed_cost entries) (\<lambda>rest.
             Inr (flow_entry.extend entry (flow_record.fields share) # rest))))"

text \<open>The finished-good record, appended when its value is strictly positive.\<close>

definition final_flow ::
  "string \<Rightarrow> string \<Rightarrow> cell \<Rightarrow> cell \<Rightarrow> num \<times> string \<Rightarrow> num \<Rightarrow> num \<Rightarrow> error + flow_record list" where
  "final_flow sku assembly_site_id assembly_country assembly_role tariff final_flow_value
       landed_cost =
     (if gt final_flow_value (Num 0)
      then and_then (ratio_or_zero final_flow_value landed_cost) (\<lambda>share.
             Inr [\<lparr>flow_entry.SKU = sku, component = Some ''Finished Good'',
                   from_site = Some assembly_site_id, to_site = US_CUSTOMER_NODE_SiteID,
                   from_country = assembly_country, to_country = Some ''United States'',
                   from_role = assembly_role, to_role = Some US_CUSTOMER_NODE_Role,
                   tariff_rate = fst tariff, tariff_source = snd tariff,
                   cost_value = final_flow_value, cost_share = share\<rparr>])
      else Inr [])"

text \<open>
  What one pass of the loop over \<^verbatim>\<open>TARGET_SKUS\<close> computes when the SKU is not
  skipped: the accumulators after the BOM loop, the legs around them, the summary
  row and the flow records the pass appends.
\<close>

record sku_pass =
  bom_totals :: totals
  conversion_cost_chf :: num
  outbound_cost :: num
  outbound_lead :: num
  final_tariff_rate :: num
  final_tariff_source :: string
  final_tariff_value :: num
  landed_cost :: num
  final_flow_value :: num
  row :: summary_row
  new_records :: "flow_record list"

definition sku_rollup ::
  "data \<Rightarrow> string \<Rightarrow> string \<Rightarrow> tariff_input list \<Rightarrow> bool \<Rightarrow> cell \<Rightarrow> cell \<Rightarrow> string
     \<Rightarrow> error + sku_pass option" where
  "sku_rollup d scenario_date assembly_site_id tariff_inputs include_fixed_fees
       assembly_country assembly_role sku =
     (case Products d sku of
        None \<Rightarrow> Inr None
      | Some sku_product \<Rightarrow>
          if option_rows d sku assembly_site_id = [] then Inr None
          else
            let option_row = hd (option_rows d sku assembly_site_id);
                yield_rate = yield_rate_of option_row
            in and_then (usd_to_chf (BaseConvCost_USD option_row) (FX d)) (\<lambda>conversion_cost.
               if sku_bom d sku = [] then Inr None
               else
               and_then (component_loop d scenario_date assembly_site_id tariff_inputs
                           include_fixed_fees assembly_country assembly_role sku yield_rate
                           totals0 (bom_components d sku)) (\<lambda>acc.
               and_then (outbound_leg d include_fixed_fees assembly_country sku_product)
                 (\<lambda>(outbound, outbound_lead_time).
               let final = final_tariff d scenario_date tariff_inputs assembly_country;
                   final_tariff_base =
                     material_total acc + inbound_logistics_total acc + conversion_cost;
                   final_value = final_tariff_base * fst final;
                   total_tariffs = component_tariffs_total acc + final_value;
                   total_logistics = inbound_logistics_total acc + outbound;
                   landed = material_total acc + total_logistics + total_tariffs + conversion_cost
               in and_then (usd_to_chf (ListPrice_USD sku_product) (FX d)) (\<lambda>list_price_chf.
                  let margin_chf = list_price_chf - landed
                  in and_then (ratio_or_zero margin_chf list_price_chf) (\<lambda>margin_pct.
                  let lead_time_days =
                        (case component_leads acc of [] \<Rightarrow> Num 0 | l # ls \<Rightarrow> py_max l ls)
                          + outbound_lead_time;
                      summary_row =
                        \<lparr>ScenarioDate = scenario_date, AssemblySite = assembly_site_id,
                         SKU_Display = str_replace ''ACTUATOR_'' [] sku,
                         MaterialCost_CHF = material_total acc,
                         InboundLogistics_CHF = inbound_logistics_total acc,
                         OutboundLogistics_CHF = outbound,
                         Tariffs_CHF = total_tariffs,
                         ConversionCost_CHF = conversion_cost,
                         LandedCost_CHF = landed,
                         ListPrice_CHF = list_price_chf,
                         Margin_CHF = margin_chf,
                         MarginPct = margin_pct,
                         LeadTime_days = lead_time_days,
                         SKU = sku\<rparr>;
                      final_value_flow = outbound + final_value
                  in and_then (share_entries landed (component_flow_entries acc))
                       (\<lambda>component_records.
                     and_then (final_flow sku assembly_site_id assembly_country assembly_role
                                 final final_value_flow landed) (\<lambda>final_records.
                       Inr (Some
                         \<lparr>bom_totals = acc, conversion_cost_chf = conversion_cost,
                          outbound_cost = outbound, outbound_lead = outbound_lead_time,
                          final_tariff_rate = fst final, final_tariff_source = snd final,
                          final_tariff_value = final_value, landed_cost = landed,
                          final_flow_value = final_value_flow, row = summary_row,
                          new_records = component_records @ final_records\<rparr>)))))))))"

subsection \<open>The entry point\<close>

record assembly_meta =
  id' :: string
  country :: cell
  role :: cell

record result =
  summary :: "summary_row list"
  breakdown :: "breakdown_row list"
  flows :: "flow_record list"
  assembly_site :: assembly_meta

text \<open>The loop over \<^verbatim>\<open>TARGET_SKUS\<close>, carrying the two output lists.\<close>

fun sku_loop ::
  "data \<Rightarrow> string \<Rightarrow> string \<Rightarrow> tariff_input list \<Rightarrow> bool \<Rightarrow> cell \<Rightarrow> cell
     \<Rightarrow> summary_row list \<times> flow_record list \<Rightarrow> string list
     \<Rightarrow> error + (summary_row list \<times> flow_record list)" where
  "sku_loop d scenario_date assembly_site_id tariff_inputs include_fixed_fees
       assembly_country assembly_role out [] = Inr out"
| "sku_loop d scenario_date assembly_site_id tariff_inputs include_fixed_fees
       assembly_country assembly_role out (sku # skus) =
     and_then (sku_rollup d scenario_date assembly_site_id tariff_inputs include_fixed_fees
                 assembly_country assembly_role sku) (\<lambda>pass.
       sku_loop d scenario_date assembly_site_id tariff_inputs include_fixed_fees
         assembly_country assembly_role
         (case pass of
            None \<Rightarrow> out
          | Some p \<Rightarrow> (fst out @ [row p], snd out @ new_records p))
         skus)"

definition compute_costs ::
  "data \<Rightarrow> string \<Rightarrow> string \<Rightarrow> tariff_input list \<Rightarrow> bool \<Rightarrow> error + result" where
  "compute_costs d scenario_date assembly_site_id tariff_records include_fixed_fees =
     (case Sites d assembly_site_id of
        None \<Rightarrow> Inl (UnknownAssemblySite assembly_site_id)
      | Some assembly_site_row \<Rightarrow>
          and_then (sku_loop d scenario_date assembly_site_id tariff_records include_fixed_fees
                      (Country assembly_site_row) (Role assembly_site_row) ([], []) TARGET_SKUS)
            (\<lambda>out. Inr \<lparr>summary = fst out,
                         breakdown = map breakdown_row.truncate (fst out),
                         flows = snd out,
                         assembly_site =
                           \<lparr>id' = assembly_site_id, country = Country assembly_site_row,
                            role = Role assembly_site_row\<rparr>\<rparr>))"

section \<open>Notions used to state the properties\<close>

text \<open>
  The lead time the engine reads for a leg: that of the first lane between the two
  countries, 0.0 when there is none.
\<close>

definition lane_lead_time :: "data \<Rightarrow> cell \<Rightarrow> cell \<Rightarrow> num" where
  "lane_lead_time d origin destination =
     (case lane_rows origin destination (LogisticsLanes d) of
        [] \<Rightarrow> Num 0
      | lane_row # _ \<Rightarrow> lane.LeadTime_days lane_row)"

text \<open>
  The resolver as the specification words it: three independent tiers, each a lookup
  that answers with a rate or with nothing, tried in the order override, scenario,
  default. The row of a table for a key is the first row with that key.
\<close>

definition override_tier :: "cell \<Rightarrow> cell \<Rightarrow> tariff_input list \<Rightarrow> real option" where
  "override_tier component_class origin_country overrides =
     (case find (\<lambda>r. cell_eq (tariff_input.ComponentClass r) component_class
                     \<and> cell_eq (tariff_input.OriginCountry r) origin_country) overrides of
        None \<Rightarrow> None
      | Some r \<Rightarrow> (case UserRate_pct r of Num u \<Rightarrow> Some u | NaN \<Rightarrow> None))"

definition scenario_tier :: "cell \<Rightarrow> cell \<Rightarrow> string \<Rightarrow> us_tariff list \<Rightarrow> real option" where
  "scenario_tier component_class origin_country scenario_date us_schedule =
     (case find (\<lambda>r. us_tariff.ScenarioDate r = scenario_date
                     \<and> cell_eq (us_tariff.ComponentClass r) component_class
                     \<and> cell_eq (us_tariff.OriginCountry r) origin_country) us_schedule of
        None \<Rightarrow> None
      | Some r \<Rightarrow> (case US_AdValoremTariff_pct r of Num x \<Rightarrow> Some x | NaN \<Rightarrow> None))"

definition default_tier :: "cell \<Rightarrow> cell \<Rightarrow> tariff_input list \<Rightarrow> real option" where
  "default_tier component_class origin_country overrides =
     (case find (\<lambda>r. cell_eq (tariff_input.ComponentClass r) component_class
                     \<and> cell_eq (tariff_input.OriginCountry r) origin_country) overrides of
        None \<Rightarrow> None
      | Some r \<Rightarrow> (case DefaultRate_pct r of Num x \<Rightarrow> Some x | NaN \<Rightarrow> None))"

definition resolveTariffRate ::
  "cell \<Rightarrow> cell \<Rightarrow> string \<Rightarrow> tariff_input list \<Rightarrow> us_tariff list \<Rightarrow> num \<times> string" where
  "resolveTariffRate component_class origin_country scenario_date overrides us_schedule =
     (case override_tier component_class origin_country overrides of
        Some u \<Rightarrow> (Num (u / 100), ''Override'')
      | None \<Rightarrow>
          (case scenario_tier component_class origin_country scenario_date us_schedule of
             Some x \<Rightarrow> (Num (x / 100), ''Scenario '' @ scenario_date)
           | None \<Rightarrow>
               (case default_tier component_class origin_country overrides of
                  Some x \<Rightarrow> (Num (x / 100), ''Default'')
                | None \<Rightarrow> (Num 0, ''None''))))"

text \<open>
  The component edges of a pass that the output loop skips, and the value of the
  finished-good edge when that one is not appended.
\<close>

definition filtered_out :: "sku_pass \<Rightarrow> flow_entry list" where
  "filtered_out p =
     filter (\<lambda>e. le (cost_value e) (Num 0)) (component_flow_entries (bom_totals p))"

definition final_value_dropped :: "sku_pass \<Rightarrow> num" where
  "final_value_dropped p =
     (if gt (final_flow_value p) (Num 0) then Num 0 else final_flow_value p)"

section \<open>A worked data set\<close>

text \<open>
  One product with three BOM lines: a motor from China, a gear from Serbia and a
  part that no Component row describes. It can be assembled in the United States
  or in Mexico. The Swiss franc is worth two dollars.
\<close>

definition demo_sites :: "string \<rightharpoonup> site" where
  "demo_sites = map_of
     [(''CN1'', \<lparr>Country = Some ''China'', Role = Some ''Supplier''\<rparr>),
      (''RS1'', \<lparr>Country = Some ''Serbia'', Role = Some ''Supplier''\<rparr>),
      (''US1'', \<lparr>Country = Some ''United States'', Role = Some ''Assembly''\<rparr>),
      (''MX1'', \<lparr>Country = Some ''Mexico'', Role = Some ''Assembly''\<rparr>)]"

definition demo_products :: "string \<rightharpoonup> product" where
  "demo_products = map_of
     [(''ACTUATOR_AX100'', \<lparr>product.UnitWeight_kg = Num 2, ListPrice_USD = Num 1000\<rparr>)]"

definition demo_bom :: "bom_line list" where
  "demo_bom =
     [\<lparr>ParentSKU = Some ''ACTUATOR_AX100'', bom_line.PartID = Some ''MOTOR'',
       bom_line.Qty = Num 2\<rparr>,
      \<lparr>ParentSKU = Some ''ACTUATOR_AX100'', bom_line.PartID = Some ''GEAR'',
       bom_line.Qty = Num 1\<rparr>,
      \<lparr>ParentSKU = Some ''ACTUATOR_AX100'', bom_line.PartID = Some ''GHOST'',
       bom_line.Qty = Num 1\<rparr>]"

definition demo_components :: "component list" where
  "demo_components =
     [\<lparr>component.PartID = Some ''MOTOR'', component.Class = Some ''motor'',
       component.UnitWeight_kg = Num 1, component.BasePrice_local = Num 100,
       component.OriginSiteID = Some ''CN1''\<rparr>,
      \<lparr>component.PartID = Some ''GEAR'', component.Class = Some ''gear'',
       component.UnitWeight_kg = Num 1, component.BasePrice_local = Num 50,
       component.OriginSiteID = Some ''RS1''\<rparr>]"

definition demo_option_us :: assembly_option where
  "demo_option_us =
     \<lparr>assembly_option.SKU = Some ''ACTUATOR_AX100'', AssemblySiteID = Some ''US1'',
      BaseConvCost_USD = Num 30, ScrapRate = Num 0, Yield = Some (Num 0)\<rparr>"

definition demo_option_mx :: assembly_option where
  "demo_option_mx =
     \<lparr>assembly_option.SKU = Some ''ACTUATOR_AX100'', AssemblySiteID = Some ''MX1'',
      BaseConvCost_USD = Num 20, ScrapRate = Num 0, Yield = None\<rparr>"

definition demo_options :: "assembly_option list" where
  "demo_options = [demo_option_us, demo_option_mx]"

definition demo_lanes :: "lane list" where
  "demo_lanes =
     [\<lparr>FromCountry = Some ''China'', ToCountry = Some ''United States'',
       Cost_per_kg_USD = Num 1, Fixed_per_shipment_USD = Num 100, lane.LeadTime_days = Num 5\<rparr>,
      \<lparr>FromCountry = Some ''Serbia'', ToCountry = Some ''United States'',
       Cost_per_kg_USD = Num 2, Fixed_per_shipment_USD = Num 100, lane.LeadTime_days = Num 12\<rparr>,
      \<lparr>FromCountry = Some ''United States'', ToCountry = Some ''United States'',
       Cost_per_kg_USD = Num (1 / 2), Fixed_per_shipment_USD = Num 0, lane.LeadTime_days = Num 3\<rparr>,
      \<lparr>FromCountry = Some ''China'', ToCountry = Some ''Mexico'',
       Cost_per_kg_USD = Num 1, Fixed_per_shipment_USD = Num 0, lane.LeadTime_days = Num 7\<rparr>,
      \<lparr>FromCountry = Some ''Mexico'', ToCountry = Some ''United States'',
       Cost_per_kg_USD = Num 1, Fixed_per_shipment_USD = Num 0, lane.LeadTime_days = Num 4\<rparr>]"

definition demo_tariffs_us :: "us_tariff list" where
  "demo_tariffs_us =
     [\<lparr>us_tariff.ScenarioDate = ''2025-07-01'', us_tariff.ComponentClass = Some ''motor'',
       us_tariff.OriginCountry = Some ''China'', US_AdValoremTariff_pct = Num 10\<rparr>,
      \<lparr>us_tariff.ScenarioDate = ''2025-07-01'',
       us_tariff.ComponentClass = Some ''FinalAssembly'',
       us_tariff.OriginCountry = Some ''Mexico'', US_AdValoremTariff_pct = Num 5\<rparr>]"

definition demo_fx :: fx_rates where
  "demo_fx = map_of [(''USD'', Num 1), (''CHF'', Num 2)]"

definition demo :: data where
  "demo =
     \<lparr>Products = demo_products, BOM = demo_bom, Components = demo_components,
      Sites = demo_sites, AssemblyOptions = demo_options, LogisticsLanes = demo_lanes,
      Tariffs_US = demo_tariffs_us, FX = demo_fx\<rparr>"

text \<open>
  An override table: a user rate for motors from China, no user rate for gears from
  Serbia, and a second row for motors from China that comes too late to be read.
\<close>

definition demo_overrides :: "tariff_input list" where
  "demo_overrides =
     [\<lparr>tariff_input.ComponentClass = Some ''motor'', tariff_input.OriginCountry = Some ''China'',
       DefaultRate_pct = Num 8, UserRate_pct = Num 25\<rparr>,
      \<lparr>tariff_input.ComponentClass = Some ''gear'', tariff_input.OriginCountry = Some ''Serbia'',
       DefaultRate_pct = Num 4, UserRate_pct = NaN\<rparr>,
      \<lparr>tariff_input.ComponentClass = Some ''motor'', tariff_input.OriginCountry = Some ''China'',
       DefaultRate_pct = Num 1, UserRate_pct = Num 99\<rparr>]"

text \<open>
  The rollup of the product at the US site for the scenario of 2025-07-01, without
  overrides and without fixed fees, worked out by hand: the accumulators after the BOM
  loop, the summary row, the flow records and the whole result.
\<close>

definition demo_us_entries :: "flow_entry list" where
  "demo_us_entries =
     [\<lparr>flow_entry.SKU = ''ACTUATOR_AX100'', component = Some ''MOTOR'',
       from_site = Some ''CN1'', to_site = ''US1'', from_country = Some ''China'',
       to_country = Some ''United States'', from_role = Some ''Supplier'',
       to_role = Some ''Assembly'', tariff_rate = Num (1 / 10),
       tariff_source = ''Scenario 2025-07-01'', cost_value = Num 111\<rparr>,
      \<lparr>flow_entry.SKU = ''ACTUATOR_AX100'', component = Some ''GEAR'',
       from_site = Some ''RS1'', to_site = ''US1'', from_country = Some ''Serbia'',
       to_country = Some ''United States'', from_role = Some ''Supplier'',
       to_role = Some ''Assembly'', tariff_rate = Num 0,
       tariff_source = ''None'', cost_value = Num 26\<rparr>,
      \<lparr>flow_entry.SKU = ''ACTUATOR_AX100'', component = Some ''GHOST'',
       from_site = None, to_site = ''US1'', from_country = None,
       to_country = Some ''United States'', from_role = None,
       to_role = Some ''Assembly'', tariff_rate = Num 0,
       tariff_source = ''None'', cost_value = Num 0\<rparr>]"

definition demo_us_totals :: totals where
  "demo_us_totals =
     \<lparr>material_total = Num 125, inbound_logistics_total = Num 2,
      component_tariffs_total = Num 10, component_leads = [Num 5, Num 12, Num 0],
      component_flow_entries = demo_us_entries\<rparr>"

definition demo_us_row :: summary_row where
  "demo_us_row =
     \<lparr>ScenarioDate = ''2025-07-01'', AssemblySite = ''US1'', SKU_Display = ''AX100'',
      MaterialCost_CHF = Num 125, InboundLogistics_CHF = Num 2,
      OutboundLogistics_CHF = Num (1 / 2), Tariffs_CHF = Num 10, ConversionCost_CHF = Num 15,
      LandedCost_CHF = Num (305 / 2), ListPrice_CHF = Num 500, Margin_CHF = Num (695 / 2),
      MarginPct = Num (139 / 200), LeadTime_days = Num 15, SKU = ''ACTUATOR_AX100''\<rparr>"

definition demo_us_records :: "flow_record list" where
  "demo_us_records =
     [\<lparr>flow_entry.SKU = ''ACTUATOR_AX100'', component = Some ''MOTOR'',
       from_site = Some ''CN1'', to_site = ''US1'', from_country = Some ''China'',
       to_country = Some ''United States'', from_role = Some ''Supplier'',
       to_role = Some ''Assembly'', tariff_rate = Num (1 / 10),
       tariff_source = ''Scenario 2025-07-01'', cost_value = Num 111,
       cost_share = Num (222 / 305)\<rparr>,
      \<lparr>flow_entry.SKU = ''ACTUATOR_AX100'', component = Some ''GEAR'',
       from_site = Some ''RS1'', to_site = ''US1'', from_country = Some ''Serbia'',
       to_country = Some ''United States'', from_role = Some ''Supplier'',
       to_role = Some ''Assembly'', tariff_rate = Num 0,
       tariff_source = ''None'', cost_value = Num 26, cost_share = Num (52 / 305)\<rparr>,
      \<lparr>flow_entry.SKU = ''ACTUATOR_AX100'', component = Some ''Finished Good'',
       from_site = Some ''US1'', to_site = ''US_CUSTOMER'',
       from_country = Some ''United States'', to_country = Some ''United States'',
       from_role = Some ''Assembly'', to_role = Some ''Customer demand'',
       tariff_rate = Num 0, tariff_source = ''Domestic'', cost_value = Num (1 / 2),
       cost_share = Num (1 / 305)\<rparr>]"

definition demo_us_pass :: sku_pass where
  "demo_us_pass =
     \<lparr>bom_totals = demo_us_totals, conversion_cost_chf = Num 15, outbound_cost = Num (1 / 2),
      outbound_lead = Num 3, final_tariff_rate = Num 0, final_tariff_source = ''Domestic'',
      final_tariff_value = Num 0, landed_cost = Num (305 / 2), final_flow_value = Num (1 / 2),
      row = demo_us_row, new_records = demo_us_records\<rparr>"

definition demo_us_result :: result where
  "demo_us_result =
     \<lparr>summary = [demo_us_row], breakdown = [breakdown_row.truncate demo_us_row],
      flows = demo_us_records,
      assembly_site = \<lparr>id' = ''US1'', country = Some ''United States'',
                        role = Some ''Assembly''\<rparr>\<rparr>"

text \<open>
  The worked data set with another yield cell in the assembly option of the Mexican
  site.
\<close>

definition demo_with_yield :: "num option \<Rightarrow> data" where
  "demo_with_yield y =
     demo\<lparr>AssemblyOptions := [demo_option_us, demo_option_mx\<lparr>Yield := y\<rparr>]\<rparr>"

section \<open>Basic facts\<close>

lemma and_then_Inr [simp]: "and_then (Inr v) f = f v"
  by (simp add: and_then_def)

lemma and_then_Inl [simp]: "and_then (Inl e) f = Inl e"
  by (simp add: and_then_def)

lemma and_then_eq_Inr: "(and_then r f = Inr y) = (\<exists>v. r = Inr v \<and> f v = Inr y)"
  by (cases r) simp_all

lemma and_then_returns:
  assumes "\<exists>v. r = Inr v" and "\<And>v. \<exists>w. f v = Inr w"
  shows "\<exists>w. and_then r f = Inr w"
  using assms by auto

subsection \<open>No step of the engine raises once the site is known\<close>

lemma fdiv_returns: "\<not> falsy b \<Longrightarrow> \<exists>v. fdiv a b = Inr v"
  by (cases a; cases b) simp_all

lemma usd_to_chf_returns: "\<exists>v. usd_to_chf a fx = Inr v"
  by (simp add: usd_to_chf_def Let_def fdiv_returns)

lemma local_to_chf_returns: "\<exists>v. local_to_chf a cur fx = Inr v"
  by (simp add: local_to_chf_def Let_def usd_to_chf_returns)

lemma ratio_or_zero_returns: "\<exists>v. ratio_or_zero a b = Inr v"
  by (simp add: ratio_or_zero_def fdiv_returns)

lemma inbound_leg_returns: "\<exists>v. inbound_leg d fees oc ac w = Inr v"
proof -
  obtain v where
    "usd_to_chf (lane_cost_usd (hd (lane_rows oc ac (LogisticsLanes d))) w fees) (FX d) = Inr v"
    using usd_to_chf_returns by blast
  then show ?thesis by (simp add: inbound_leg_def Let_def)
qed

lemma outbound_leg_returns: "\<exists>v. outbound_leg d fees ac p = Inr v"
proof -
  obtain v where
    "usd_to_chf (lane_cost_usd (hd (lane_rows ac (Some ''United States'') (LogisticsLanes d)))
       (product.UnitWeight_kg p) fees) (FX d) = Inr v"
    using usd_to_chf_returns by blast
  then show ?thesis by (simp add: outbound_leg_def Let_def)
qed

lemma yield_rate_truthy: "\<not> falsy (yield_rate_of r)"
  by (simp add: yield_rate_of_def Let_def)

lemma component_step_returns:
  assumes "\<not> falsy y"
  shows "\<exists>acc'. component_step d sd a ti fees ac ar sku y acc r = Inr acc'"
proof -
  obtain q where q: "fdiv (bom_component.Qty r) y = Inr q"
    using fdiv_returns [OF assms] by blast
  obtain m where m: "local_to_chf (bom_component.BasePrice_local r * q)
        (currency_of (fst (origin_of d r))) (FX d) = Inr m"
    using local_to_chf_returns by blast
  obtain c l where l: "inbound_leg d fees (fst (origin_of d r)) ac
        (q * bom_component.UnitWeight_kg r) = Inr (c, l)"
    using inbound_leg_returns by (metis surj_pair)
  show ?thesis
    by (simp add: component_step_def q m l Let_def)
qed

lemma component_loop_returns:
  "\<not> falsy y \<Longrightarrow> \<exists>acc'. component_loop d sd a ti fees ac ar sku y acc rs = Inr acc'"
proof (induction rs arbitrary: acc)
  case Nil
  then show ?case by simp
next
  case (Cons r rs)
  obtain acc1 where "component_step d sd a ti fees ac ar sku y acc r = Inr acc1"
    using component_step_returns [OF Cons.prems] by blast
  then show ?case using Cons.IH [OF Cons.prems] by simp
qed

lemma share_entries_returns: "\<exists>rs. share_entries lc es = Inr rs"
proof (induction es)
  case Nil
  then show ?case by simp
next
  case (Cons e es)
  obtain s where "ratio_or_zero (cost_value e) lc = Inr s"
    using ratio_or_zero_returns by blast
  then show ?case using Cons.IH by auto
qed

lemma final_flow_returns: "\<exists>rs. final_flow sku a ac ar t v lc = Inr rs"
proof -
  obtain s where "ratio_or_zero v lc = Inr s"
    using ratio_or_zero_returns by blast
  then show ?thesis by (simp add: final_flow_def)
qed

lemma sku_rollup_returns: "\<exists>p. sku_rollup d sd a ti fees ac ar sku = Inr p"
  unfolding sku_rollup_def Let_def
  by (auto split: option.splits prod.splits
      intro!: and_then_returns usd_to_chf_returns component_loop_returns yield_rate_truthy
        outbound_leg_returns ratio_or_zero_returns share_entries_returns final_flow_returns)

lemma sku_loop_returns: "\<exists>out'. sku_loop d sd a ti fees ac ar out skus = Inr out'"
proof (induction skus arbitrary: out)
  case Nil
  then show ?case by simp
next
  case (Cons sku skus)
  obtain p where "sku_rollup d sd a ti fees ac ar sku = Inr p"
    using sku_rollup_returns by blast
  then show ?case using Cons.IH by simp
qed

lemma compute_costs_known_site:
  assumes "Sites d a = Some st"
  shows "\<exists>r. compute_costs d sd a ti fees = Inr r"
proof -
  obtain out where
    "sku_loop d sd a ti fees (Country st) (Role st) ([], []) TARGET_SKUS = Inr out"
    using sku_loop_returns by blast
  with assms show ?thesis by (simp add: compute_costs_def)
qed

section \<open>What a pass computes\<close>

lemma inbound_leg_lead:
  "inbound_leg d fees oc ac w = Inr (c, l) \<Longrightarrow> l = lane_lead_time d oc ac"
  by (cases "lane_rows oc ac (LogisticsLanes d)")
     (auto simp: inbound_leg_def lane_lead_time_def Let_def and_then_eq_Inr)


text \<open>What one pass over a BOM line adds to the accumulators.\<close>

lemma component_step_Inr:
  assumes "component_step d sd a ti fees ac ar sku y acc bom_row = Inr acc'"
  shows "\<exists>m l e.
     material_total acc' = material_total acc + m
     \<and> inbound_logistics_total acc' = inbound_logistics_total acc + l
     \<and> component_tariffs_total acc' = component_tariffs_total acc
         + m * fst (component_tariff d sd ti ac (bom_component.Class bom_row)
                      (fst (origin_of d bom_row)))
     \<and> component_leads acc' = component_leads acc @ [lane_lead_time d (fst (origin_of d bom_row)) ac]
     \<and> component_flow_entries acc' = component_flow_entries acc @ [e]
     \<and> cost_value e = m + l + m * fst (component_tariff d sd ti ac (bom_component.Class bom_row)
                      (fst (origin_of d bom_row)))
     \<and> (tariff_rate e, tariff_source e)
         = component_tariff d sd ti ac (bom_component.Class bom_row) (fst (origin_of d bom_row))
     \<and> flow_entry.SKU e = sku"
proof -
  let ?oc = "fst (origin_of d bom_row)"
  let ?t = "component_tariff d sd ti ac (bom_component.Class bom_row) ?oc"
  from assms obtain q m c l where
    leg: "inbound_leg d fees ?oc ac (q * bom_component.UnitWeight_kg bom_row) = Inr (c, l)" and
    acc': "acc' =
      \<lparr>material_total = material_total acc + m,
       inbound_logistics_total = inbound_logistics_total acc + c,
       component_tariffs_total = component_tariffs_total acc + m * fst ?t,
       component_leads = component_leads acc @ [l],
       component_flow_entries = component_flow_entries acc @
         [\<lparr>flow_entry.SKU = sku, component = bom_component.PartID bom_row,
           from_site = bom_component.OriginSiteID bom_row,
           to_site = a, from_country = ?oc, to_country = ac,
           from_role = snd (origin_of d bom_row), to_role = ar, tariff_rate = fst ?t,
           tariff_source = snd ?t, cost_value = m + c + m * fst ?t\<rparr>]\<rparr>"
    by (auto simp: component_step_def Let_def and_then_eq_Inr)
  have "l = lane_lead_time d ?oc ac" using leg by (rule inbound_leg_lead)
  with acc' show ?thesis
    by (intro exI [of _ m] exI [of _ c]
        exI [of _ "\<lparr>flow_entry.SKU = sku, component = bom_component.PartID bom_row,
           from_site = bom_component.OriginSiteID bom_row,
           to_site = a, from_country = ?oc, to_country = ac,
           from_role = snd (origin_of d bom_row), to_role = ar, tariff_rate = fst ?t,
           tariff_source = snd ?t, cost_value = m + c + m * fst ?t\<rparr>"]) simp
qed

lemma component_loop_Inr:
  assumes "component_loop d sd a ti fees ac ar sku y acc bom_rows = Inr acc'"
  shows "\<exists>es.
     component_flow_entries acc' = component_flow_entries acc @ es
     \<and> material_total acc' + inbound_logistics_total acc' + component_tariffs_total acc'
         = material_total acc + inbound_logistics_total acc + component_tariffs_total acc
           + sum_list (map cost_value es)
     \<and> map (\<lambda>e. (tariff_rate e, tariff_source e)) es
         = map (\<lambda>r. component_tariff d sd ti ac (bom_component.Class r) (fst (origin_of d r)))
             bom_rows
     \<and> component_leads acc'
         = component_leads acc @ map (\<lambda>r. lane_lead_time d (fst (origin_of d r)) ac) bom_rows
     \<and> (\<forall>e \<in> set es. flow_entry.SKU e = sku)"
  using assms
proof (induction bom_rows arbitrary: acc)
  case Nil
  then show ?case by simp
next
  case (Cons r rs)
  from Cons.prems obtain acc1 where
    step: "component_step d sd a ti fees ac ar sku y acc r = Inr acc1" and
    rest: "component_loop d sd a ti fees ac ar sku y acc1 rs = Inr acc'"
    by (auto simp: and_then_eq_Inr)
  from component_step_Inr [OF step] obtain m l e where
    s1: "material_total acc1 = material_total acc + m"
        "inbound_logistics_total acc1 = inbound_logistics_total acc + l"
        "component_tariffs_total acc1 = component_tariffs_total acc
           + m * fst (component_tariff d sd ti ac (bom_component.Class r) (fst (origin_of d r)))"
        "component_leads acc1 = component_leads acc @ [lane_lead_time d (fst (origin_of d r)) ac]"
        "component_flow_entries acc1 = component_flow_entries acc @ [e]"
        "cost_value e = m + l
           + m * fst (component_tariff d sd ti ac (bom_component.Class r) (fst (origin_of d r)))"
        "(tariff_rate e, tariff_source e)
           = component_tariff d sd ti ac (bom_component.Class r) (fst (origin_of d r))"
        "flow_entry.SKU e = sku"
    by blast
  from Cons.IH [OF rest] obtain es where
    s2: "component_flow_entries acc' = component_flow_entries acc1 @ es"
        "material_total acc' + inbound_logistics_total acc' + component_tariffs_total acc'
           = material_total acc1 + inbound_logistics_total acc1 + component_tariffs_total acc1
             + sum_list (map cost_value es)"
        "map (\<lambda>e. (tariff_rate e, tariff_source e)) es
           = map (\<lambda>r. component_tariff d sd ti ac (bom_component.Class r) (fst (origin_of d r))) rs"
        "component_leads acc'
           = component_leads acc1 @ map (\<lambda>r. lane_lead_time d (fst (origin_of d r)) ac) rs"
        "\<forall>e \<in> set es. flow_entry.SKU e = sku"
    by blast
  have "component_flow_entries acc' = component_flow_entries acc @ (e # es)"
    using s1 s2 by simp
  moreover have "material_total acc' + inbound_logistics_total acc' + component_tariffs_total acc'
         = material_total acc + inbound_logistics_total acc + component_tariffs_total acc
           + sum_list (map cost_value (e # es))"
    using s1 s2 by (simp add: ac_simps)
  moreover have "map (\<lambda>e. (tariff_rate e, tariff_source e)) (e # es)
         = map (\<lambda>r. component_tariff d sd ti ac (bom_component.Class r) (fst (origin_of d r)))
             (r # rs)"
    using s1 s2 by simp
  moreover have "component_leads acc'
         = component_leads acc @ map (\<lambda>r. lane_lead_time d (fst (origin_of d r)) ac) (r # rs)"
    using s1 s2 by simp
  moreover have "\<forall>x \<in> set (e # es). flow_entry.SKU x = sku"
    using s1 s2 by simp
  ultimately show ?case by blast
qed


lemma share_entries_Inr:
  "share_entries lc es = Inr rs \<Longrightarrow>
     map flow_entry.truncate rs = filter (\<lambda>e. \<not> le (cost_value e) (Num 0)) es"
proof (induction es arbitrary: rs)
  case Nil
  then show ?case by simp
next
  case (Cons e es)
  show ?case
  proof (cases "le (cost_value e) (Num 0)")
    case True
    with Cons show ?thesis by simp
  next
    case False
    with Cons.prems obtain share rest where
      "share_entries lc es = Inr rest" and
      "rs = flow_entry.extend e (flow_record.fields share) # rest"
      by (auto simp: and_then_eq_Inr)
    with Cons.IH [of rest] False show ?thesis
      by (simp add: flow_entry.truncate_def flow_entry.extend_def flow_record.fields_def)
  qed
qed

lemma final_flow_Inr:
  "final_flow sku a ac ar t v lc = Inr rs \<Longrightarrow>
     map flow_entry.truncate rs =
       (if gt v (Num 0)
        then [\<lparr>flow_entry.SKU = sku, component = Some ''Finished Good'',
               from_site = Some a, to_site = US_CUSTOMER_NODE_SiteID,
               from_country = ac, to_country = Some ''United States'',
               from_role = ar, to_role = Some US_CUSTOMER_NODE_Role,
               tariff_rate = fst t, tariff_source = snd t, cost_value = v\<rparr>]
        else [])"
  by (auto simp: final_flow_def and_then_eq_Inr flow_entry.truncate_def split: if_splits)

lemma cost_value_truncate: "cost_value (flow_entry.truncate r) = cost_value r"
  by (simp add: flow_entry.truncate_def)


lemma sku_rollup_Some:
  assumes "sku_rollup d sd a ti fees ac ar sku = Inr (Some p)"
  shows "\<exists>sku_product crs frs.
     Products d sku = Some sku_product \<and> option_rows d sku a \<noteq> [] \<and> sku_bom d sku \<noteq> []
     \<and> usd_to_chf (BaseConvCost_USD (hd (option_rows d sku a))) (FX d)
         = Inr (conversion_cost_chf p)
     \<and> component_loop d sd a ti fees ac ar sku (yield_rate_of (hd (option_rows d sku a)))
           totals0 (bom_components d sku) = Inr (bom_totals p)
     \<and> outbound_leg d fees ac sku_product = Inr (outbound_cost p, outbound_lead p)
     \<and> (final_tariff_rate p, final_tariff_source p) = final_tariff d sd ti ac
     \<and> final_tariff_value p
         = (material_total (bom_totals p) + inbound_logistics_total (bom_totals p)
            + conversion_cost_chf p) * final_tariff_rate p
     \<and> landed_cost p
         = material_total (bom_totals p)
           + (inbound_logistics_total (bom_totals p) + outbound_cost p)
           + (component_tariffs_total (bom_totals p) + final_tariff_value p)
           + conversion_cost_chf p
     \<and> final_flow_value p = outbound_cost p + final_tariff_value p
     \<and> usd_to_chf (ListPrice_USD sku_product) (FX d) = Inr (ListPrice_CHF (row p))
     \<and> ratio_or_zero (ListPrice_CHF (row p) - landed_cost p) (ListPrice_CHF (row p))
         = Inr (MarginPct (row p))
     \<and> MaterialCost_CHF (row p) = material_total (bom_totals p)
     \<and> InboundLogistics_CHF (row p) = inbound_logistics_total (bom_totals p)
     \<and> OutboundLogistics_CHF (row p) = outbound_cost p
     \<and> Tariffs_CHF (row p) = component_tariffs_total (bom_totals p) + final_tariff_value p
     \<and> ConversionCost_CHF (row p) = conversion_cost_chf p
     \<and> LandedCost_CHF (row p) = landed_cost p
     \<and> Margin_CHF (row p) = ListPrice_CHF (row p) - landed_cost p
     \<and> breakdown_row.LeadTime_days (row p)
         = (case component_leads (bom_totals p) of [] \<Rightarrow> Num 0 | l # ls \<Rightarrow> py_max l ls)
           + outbound_lead p
     \<and> summary_row.SKU (row p) = sku
     \<and> share_entries (landed_cost p) (component_flow_entries (bom_totals p)) = Inr crs
     \<and> final_flow sku a ac ar (final_tariff d sd ti ac) (final_flow_value p) (landed_cost p)
         = Inr frs
     \<and> new_records p = crs @ frs"
  using assms unfolding sku_rollup_def Let_def
  by (auto simp: and_then_eq_Inr split: option.splits if_splits prod.splits)


lemma sum_list_filter_split:
  fixes f :: "'a \<Rightarrow> num"
  shows "sum_list (map f (filter P xs)) + sum_list (map f (filter (\<lambda>x. \<not> P x) xs))
         = sum_list (map f xs)"
  by (induction xs) (simp_all add: ac_simps)

lemma sum_list_truncate:
  "sum_list (map cost_value rs) = sum_list (map cost_value (map flow_entry.truncate rs))"
  by (induction rs) (simp_all add: cost_value_truncate)

lemma sku_rollup_sum:
  assumes "sku_rollup d sd a ti fees ac ar sku = Inr (Some p)"
  shows "sum_list (map cost_value (new_records p))
         + (sum_list (map cost_value (filtered_out p)) + final_value_dropped p)
         + conversion_cost_chf p = landed_cost p"
proof -
  let ?bt = "bom_totals p"
  let ?es = "component_flow_entries ?bt"
  from sku_rollup_Some [OF assms] obtain sku_product :: product and crs frs where
    loop: "component_loop d sd a ti fees ac ar sku (yield_rate_of (hd (option_rows d sku a)))
           totals0 (bom_components d sku) = Inr ?bt" and
    landed: "landed_cost p
         = material_total ?bt + (inbound_logistics_total ?bt + outbound_cost p)
           + (component_tariffs_total ?bt + final_tariff_value p) + conversion_cost_chf p" and
    fv: "final_flow_value p = outbound_cost p + final_tariff_value p" and
    crs: "share_entries (landed_cost p) ?es = Inr crs" and
    frs: "final_flow sku a ac ar (final_tariff d sd ti ac) (final_flow_value p) (landed_cost p)
         = Inr frs" and
    new: "new_records p = crs @ frs"
    by blast
  from component_loop_Inr [OF loop] have total:
    "material_total ?bt + inbound_logistics_total ?bt + component_tariffs_total ?bt
       = sum_list (map cost_value ?es)"
    by (auto simp: totals0_def zero_num_def [symmetric])
  have kept: "sum_list (map cost_value crs)
      = sum_list (map cost_value (filter (\<lambda>e. \<not> le (cost_value e) (Num 0)) ?es))"
    using share_entries_Inr [OF crs] sum_list_truncate [of crs] by simp
  have fin: "sum_list (map cost_value frs) + final_value_dropped p = final_flow_value p"
    using final_flow_Inr [OF frs] sum_list_truncate [of frs]
    by (simp add: final_value_dropped_def zero_num_def [symmetric])
  have "sum_list (map cost_value (filter (\<lambda>e. le (cost_value e) (Num 0)) ?es))
        + sum_list (map cost_value (filter (\<lambda>e. \<not> le (cost_value e) (Num 0)) ?es))
        = sum_list (map cost_value ?es)"
    by (rule sum_list_filter_split)
  with kept have parts: "sum_list (map cost_value crs) + sum_list (map cost_value (filtered_out p))
        = sum_list (map cost_value ?es)"
    by (simp add: filtered_out_def ac_simps)
  have "sum_list (map cost_value (new_records p))
         + (sum_list (map cost_value (filtered_out p)) + final_value_dropped p)
      = (sum_list (map cost_value crs) + sum_list (map cost_value (filtered_out p)))
         + (sum_list (map cost_value frs) + final_value_dropped p)"
    by (simp add: new ac_simps)
  also have "\<dots> = sum_list (map cost_value ?es) + final_flow_value p"
    by (simp only: parts fin)
  finally show ?thesis
    by (simp add: landed fv total [symmetric] ac_simps)
qed

lemma sku_truncate: "flow_entry.SKU (flow_entry.truncate r) = flow_entry.SKU r"
  by (simp add: flow_entry.truncate_def)

lemma sku_rollup_records_sku:
  assumes "sku_rollup d sd a ti fees ac ar sku = Inr (Some p)"
  shows "\<forall>f \<in> set (new_records p). flow_entry.SKU f = sku"
proof -
  let ?bt = "bom_totals p"
  from sku_rollup_Some [OF assms] obtain sku_product :: product and crs frs where
    loop: "component_loop d sd a ti fees ac ar sku (yield_rate_of (hd (option_rows d sku a)))
           totals0 (bom_components d sku) = Inr ?bt" and
    crs: "share_entries (landed_cost p) (component_flow_entries ?bt) = Inr crs" and
    frs: "final_flow sku a ac ar (final_tariff d sd ti ac) (final_flow_value p) (landed_cost p)
         = Inr frs" and
    new: "new_records p = crs @ frs"
    by blast
  from component_loop_Inr [OF loop] have es:
    "\<forall>e \<in> set (component_flow_entries ?bt). flow_entry.SKU e = sku"
    by (auto simp: totals0_def)
  have "\<forall>e \<in> set (map flow_entry.truncate crs). flow_entry.SKU e = sku"
    using share_entries_Inr [OF crs] es by simp
  then have c: "\<forall>f \<in> set crs. flow_entry.SKU f = sku"
    by (simp add: sku_truncate)
  have "\<forall>e \<in> set (map flow_entry.truncate frs). flow_entry.SKU e = sku"
    using final_flow_Inr [OF frs] by (simp split: if_splits)
  then have "\<forall>f \<in> set frs. flow_entry.SKU f = sku"
    by (simp add: sku_truncate)
  with c new show ?thesis by auto
qed

text \<open>The rows and the records one pass appends to the output.\<close>

lemma compute_costs_Inr:
  assumes "compute_costs d sd a ti fees = Inr r"
  shows "\<exists>st p1 p2.
     Sites d a = Some st
     \<and> sku_rollup d sd a ti fees (Country st) (Role st) ''ACTUATOR_AX100'' = Inr p1
     \<and> sku_rollup d sd a ti fees (Country st) (Role st) ''ACTUATOR_AX200'' = Inr p2
     \<and> summary r = (case p1 of None \<Rightarrow> [] | Some p \<Rightarrow> [row p])
                     @ (case p2 of None \<Rightarrow> [] | Some p \<Rightarrow> [row p])
     \<and> flows r = (case p1 of None \<Rightarrow> [] | Some p \<Rightarrow> new_records p)
                   @ (case p2 of None \<Rightarrow> [] | Some p \<Rightarrow> new_records p)"
proof -
  from assms obtain st where st: "Sites d a = Some st"
    by (cases "Sites d a") (auto simp: compute_costs_def)
  obtain p1 where p1:
    "sku_rollup d sd a ti fees (Country st) (Role st) ''ACTUATOR_AX100'' = Inr p1"
    using sku_rollup_returns by blast
  obtain p2 where p2:
    "sku_rollup d sd a ti fees (Country st) (Role st) ''ACTUATOR_AX200'' = Inr p2"
    using sku_rollup_returns by blast
  have "summary r = (case p1 of None \<Rightarrow> [] | Some p \<Rightarrow> [row p])
                     @ (case p2 of None \<Rightarrow> [] | Some p \<Rightarrow> [row p])
     \<and> flows r = (case p1 of None \<Rightarrow> [] | Some p \<Rightarrow> new_records p)
                   @ (case p2 of None \<Rightarrow> [] | Some p \<Rightarrow> new_records p)"
    using assms st p1 p2
    by (cases p1; cases p2) (auto simp: compute_costs_def TARGET_SKUS_def)
  with st p1 p2 show ?thesis by blast
qed

lemma compute_costs_row:
  assumes "compute_costs d sd a ti fees = Inr r" and "rw \<in> set (summary r)"
  shows "\<exists>st p. Sites d a = Some st
     \<and> sku_rollup d sd a ti fees (Country st) (Role st) (summary_row.SKU rw) = Inr (Some p)
     \<and> row p = rw
     \<and> filter (\<lambda>f. flow_entry.SKU f = summary_row.SKU rw) (flows r) = new_records p"
proof -
  let ?s1 = "''ACTUATOR_AX100''" and ?s2 = "''ACTUATOR_AX200''"
  from compute_costs_Inr [OF assms(1)] obtain st p1 p2 where
    st: "Sites d a = Some st" and
    p1: "sku_rollup d sd a ti fees (Country st) (Role st) ?s1 = Inr p1" and
    p2: "sku_rollup d sd a ti fees (Country st) (Role st) ?s2 = Inr p2" and
    sm: "summary r = (case p1 of None \<Rightarrow> [] | Some p \<Rightarrow> [row p])
                     @ (case p2 of None \<Rightarrow> [] | Some p \<Rightarrow> [row p])" and
    fl: "flows r = (case p1 of None \<Rightarrow> [] | Some p \<Rightarrow> new_records p)
                   @ (case p2 of None \<Rightarrow> [] | Some p \<Rightarrow> new_records p)"
    by blast
  have r1: "\<forall>f \<in> set (case p1 of None \<Rightarrow> [] | Some p \<Rightarrow> new_records p). flow_entry.SKU f = ?s1"
    using p1 sku_rollup_records_sku by (cases p1) auto
  have r2: "\<forall>f \<in> set (case p2 of None \<Rightarrow> [] | Some p \<Rightarrow> new_records p). flow_entry.SKU f = ?s2"
    using p2 sku_rollup_records_sku by (cases p2) auto
  have ne: "?s1 \<noteq> ?s2" by simp
  have f1: "filter (\<lambda>f. flow_entry.SKU f = ?s1) (flows r)
      = (case p1 of None \<Rightarrow> [] | Some p \<Rightarrow> new_records p)"
    using r1 r2 ne by (simp add: fl filter_empty_conv filter_id_conv)
  have f2: "filter (\<lambda>f. flow_entry.SKU f = ?s2) (flows r)
      = (case p2 of None \<Rightarrow> [] | Some p \<Rightarrow> new_records p)"
    using r1 r2 ne by (simp add: fl filter_empty_conv filter_id_conv)
  from assms(2) sm consider
    (first) p where "p1 = Some p" and "rw = row p" |
    (second) p where "p2 = Some p" and "rw = row p"
    by (auto split: option.splits)
  then show ?thesis
  proof cases
    case first
    with p1 have "summary_row.SKU rw = ?s1"
      using sku_rollup_Some [of d sd a ti fees "Country st" "Role st" ?s1 p] by auto
    with first st p1 f1 show ?thesis by auto
  next
    case second
    with p2 have "summary_row.SKU rw = ?s2"
      using sku_rollup_Some [of d sd a ti fees "Country st" "Role st" ?s2 p] by auto
    with second st p2 f2 show ?thesis by auto
  qed
qed

section \<open>The worked data set, evaluated\<close>

lemmas demo_tables = demo_def demo_bom_def demo_components_def demo_sites_def demo_lanes_def
  demo_tariffs_us_def demo_fx_def demo_products_def demo_options_def demo_option_us_def
  demo_option_mx_def

lemmas engine_defs = component_step_def origin_of_def currency_of_def COUNTRY_TO_CURRENCY_def
  local_to_chf_def usd_to_chf_def fx_get_def inbound_leg_def lane_rows_def lane_cost_usd_def
  component_tariff_def compute_tariff_rate_def candidate_rows_def scenario_rows_def
  cell_eq_def unresolved_def totals0_def plus_num_def times_num_def minus_num_def Let_def

lemma demo_bom_components:
  "bom_components demo ''ACTUATOR_AX100'' =
     [\<lparr>bom_component.PartID = Some ''MOTOR'', Qty = Num 2, Class = Some ''motor'',
       UnitWeight_kg = Num 1, BasePrice_local = Num 100, OriginSiteID = Some ''CN1'',
       ComponentOrigin = Some ''China''\<rparr>,
      \<lparr>bom_component.PartID = Some ''GEAR'', Qty = Num 1, Class = Some ''gear'',
       UnitWeight_kg = Num 1, BasePrice_local = Num 50, OriginSiteID = Some ''RS1'',
       ComponentOrigin = Some ''Serbia''\<rparr>,
      unresolved (demo_bom ! 2)]"
  by (simp add: bom_components_def sku_bom_def merge_line_def demo_def demo_bom_def
      demo_components_def demo_sites_def joined_def component_origin_def cell_eq_def)

lemma demo_us_loop:
  "component_loop demo ''2025-07-01'' ''US1'' [] False (Some ''United States'') (Some ''Assembly'')
       ''ACTUATOR_AX100'' (Num 1) totals0 (bom_components demo ''ACTUATOR_AX100'')
     = Inr demo_us_totals"
  by (simp add: demo_bom_components)
     (simp add: engine_defs demo_tables demo_us_totals_def demo_us_entries_def)

lemma demo_sku_display: "str_replace ''ACTUATOR_'' [] ''ACTUATOR_AX100'' = ''AX100''"
  by simp

lemma demo_us_rollup:
  "sku_rollup demo ''2025-07-01'' ''US1'' [] False (Some ''United States'') (Some ''Assembly'')
       ''ACTUATOR_AX100'' = Inr (Some demo_us_pass)"
proof -
  have opts: "option_rows demo ''ACTUATOR_AX100'' ''US1'' = [demo_option_us]"
    by (simp add: option_rows_def demo_def demo_options_def demo_option_us_def
        demo_option_mx_def cell_eq_def)
  have y: "yield_rate_of demo_option_us = Num 1"
    by (simp add: yield_rate_of_def demo_option_us_def)
  have bom: "sku_bom demo ''ACTUATOR_AX100'' \<noteq> []"
    by (simp add: sku_bom_def demo_def demo_bom_def cell_eq_def)
  have pr: "Products demo ''ACTUATOR_AX100''
      = Some \<lparr>product.UnitWeight_kg = Num 2, ListPrice_USD = Num 1000\<rparr>"
    by (simp add: demo_def demo_products_def)
  have conv: "usd_to_chf (BaseConvCost_USD demo_option_us) (FX demo) = Inr (Num 15)"
    by (simp add: usd_to_chf_def fx_get_def demo_def demo_fx_def demo_option_us_def)
  have lp: "usd_to_chf (Num 1000) (FX demo) = Inr (Num 500)"
    by (simp add: usd_to_chf_def fx_get_def demo_def demo_fx_def)
  have ob: "outbound_leg demo False (Some ''United States'')
      \<lparr>product.UnitWeight_kg = Num 2, ListPrice_USD = Num 1000\<rparr> = Inr (Num (1 / 2), Num 3)"
    by (simp add: outbound_leg_def lane_rows_def lane_cost_usd_def usd_to_chf_def fx_get_def
        demo_def demo_lanes_def demo_fx_def cell_eq_def times_num_def)
  have ft: "final_tariff demo ''2025-07-01'' [] (Some ''United States'') = (Num 0, ''Domestic'')"
    by (simp add: final_tariff_def)
  show ?thesis
    unfolding sku_rollup_def
    by (simp add: pr opts y bom conv lp ob ft demo_us_loop demo_sku_display Let_def)
       (simp add: demo_us_pass_def demo_us_totals_def demo_us_entries_def demo_us_row_def
        demo_us_records_def ratio_or_zero_def final_flow_def plus_num_def times_num_def
        minus_num_def py_max_def US_CUSTOMER_NODE_SiteID_def US_CUSTOMER_NODE_Role_def
        flow_entry.extend_def flow_record.fields_def Let_def)
qed


lemma demo_ax200_skipped:
  "sku_rollup demo sd a ti fees ac ar ''ACTUATOR_AX200'' = Inr None"
  by (simp add: sku_rollup_def demo_def demo_products_def)

lemma demo_us_compute:
  "compute_costs demo ''2025-07-01'' ''US1'' [] False = Inr demo_us_result"
proof -
  have site: "Sites demo ''US1''
      = Some \<lparr>Country = Some ''United States'', Role = Some ''Assembly''\<rparr>"
    by (simp add: demo_def demo_sites_def)
  have loop: "sku_loop demo ''2025-07-01'' ''US1'' [] False (Some ''United States'')
      (Some ''Assembly'') ([], []) TARGET_SKUS = Inr ([demo_us_row], demo_us_records)"
    by (simp add: TARGET_SKUS_def demo_us_rollup demo_ax200_skipped demo_us_pass_def)
  show ?thesis
    by (simp add: compute_costs_def site loop demo_us_result_def)
qed

section \<open>The unknown-site failure\<close>

text \<open>
  Claim C3. \<^verbatim>\<open>compute_costs\<close> raises the unknown-assembly-site failure exactly when
  the assembly site identifier is no key of the Sites table, whatever the scenario
  date, the override rows and the fee flag are; when the site is a key, the call
  returns a result and raises nothing, the guarded divisions included.
\<close>

theorem compute_costs_unknown_site:
  "(compute_costs d sd a ti fees = Inl (UnknownAssemblySite a)) = (a \<notin> dom (Sites d))
   \<and> (\<exists>r. compute_costs d sd a ti fees = Inr r) = (a \<in> dom (Sites d))"
proof (cases "Sites d a")
  case None
  then show ?thesis by (simp add: compute_costs_def dom_def)
next
  case (Some st)
  from compute_costs_known_site [OF Some]
  obtain r where "compute_costs d sd a ti fees = Inr r" by blast
  with Some show ?thesis by (auto simp add: dom_def)
qed

theorem compute_costs_unknown_site_witness:
  "compute_costs demo ''2025-07-01'' ''XX1'' demo_overrides True = Inl (UnknownAssemblySite ''XX1'')
   \<and> (\<exists>r. compute_costs demo ''2025-07-01'' ''US1'' demo_overrides False = Inr r)"
  using compute_costs_unknown_site [of demo "''2025-07-01''" "''XX1''" demo_overrides True]
    compute_costs_unknown_site [of demo "''2025-07-01''" "''US1''" demo_overrides False]
  by (simp add: demo_def demo_sites_def dom_def)

section \<open>Tariff precedence\<close>

lemma find_filter_Nil: "(filter P xs = []) = (find P xs = None)"
  by (induction xs) auto

lemma find_filter_hd: "filter P xs \<noteq> [] \<Longrightarrow> find P xs = Some (hd (filter P xs))"
  by (induction xs) auto

text \<open>
  Claim C1. For every component class, origin country, scenario date, override table
  and US schedule, \<^verbatim>\<open>compute_tariff_rate\<close> is the first-match-wins chain of the
  specification: the user rate of the override row when it is numeric, else the rate
  of the schedule row for the date when it is numeric, else the default rate of the
  override row when it is numeric, else exactly (0.0, None). The row of a table for a
  key is the first row that carries the key, the one \<^verbatim>\<open>.iloc[0]\<close> reads; in a
  table with one row per key it is the only one.
\<close>

theorem compute_tariff_rate_precedence:
  "compute_tariff_rate cls oc sd ti tus = resolveTariffRate cls oc sd ti tus"
proof -
  let ?P = "\<lambda>r. cell_eq (tariff_input.ComponentClass r) cls
                \<and> cell_eq (tariff_input.OriginCountry r) oc"
  let ?Q = "\<lambda>r. us_tariff.ScenarioDate r = sd \<and> cell_eq (us_tariff.ComponentClass r) cls
                \<and> cell_eq (us_tariff.OriginCountry r) oc"
  show ?thesis
  proof (cases "filter ?P ti = []")
    case cand: True
    then have f1: "find ?P ti = None" by (simp add: find_filter_Nil)
    show ?thesis
    proof (cases "filter ?Q tus = []")
      case True
      then have "find ?Q tus = None" by (simp add: find_filter_Nil)
      with cand f1 True show ?thesis
        by (simp add: compute_tariff_rate_def resolveTariffRate_def candidate_rows_def
            scenario_rows_def override_tier_def scenario_tier_def default_tier_def)
    next
      case False
      then have "find ?Q tus = Some (hd (filter ?Q tus))" by (rule find_filter_hd)
      with cand f1 False show ?thesis
        by (cases "US_AdValoremTariff_pct (hd (filter ?Q tus))")
           (simp_all add: compute_tariff_rate_def resolveTariffRate_def candidate_rows_def
            scenario_rows_def override_tier_def scenario_tier_def default_tier_def)
    qed
  next
    case cand: False
    then have f1: "find ?P ti = Some (hd (filter ?P ti))" by (rule find_filter_hd)
    show ?thesis
    proof (cases "filter ?Q tus = []")
      case True
      then have "find ?Q tus = None" by (simp add: find_filter_Nil)
      with cand f1 True show ?thesis
        by (cases "UserRate_pct (hd (filter ?P ti))"; cases "DefaultRate_pct (hd (filter ?P ti))")
           (simp_all add: compute_tariff_rate_def resolveTariffRate_def candidate_rows_def
            scenario_rows_def override_tier_def scenario_tier_def default_tier_def)
    next
      case False
      then have "find ?Q tus = Some (hd (filter ?Q tus))" by (rule find_filter_hd)
      with cand f1 False show ?thesis
        by (cases "UserRate_pct (hd (filter ?P ti))"; cases "DefaultRate_pct (hd (filter ?P ti))";
            cases "US_AdValoremTariff_pct (hd (filter ?Q tus))")
           (simp_all add: compute_tariff_rate_def resolveTariffRate_def candidate_rows_def
            scenario_rows_def override_tier_def scenario_tier_def default_tier_def)
    qed
  qed
qed

theorem compute_tariff_rate_precedence_witness:
  "compute_tariff_rate (Some ''motor'') (Some ''China'') ''2025-07-01'' demo_overrides
       demo_tariffs_us = (Num (1 / 4), ''Override'')
   \<and> compute_tariff_rate (Some ''motor'') (Some ''China'') ''2025-07-01'' [] demo_tariffs_us
       = (Num (1 / 10), ''Scenario 2025-07-01'')
   \<and> compute_tariff_rate (Some ''gear'') (Some ''Serbia'') ''2025-07-01'' demo_overrides
       demo_tariffs_us = (Num (1 / 25), ''Default'')
   \<and> compute_tariff_rate (Some ''gear'') (Some ''Serbia'') ''2025-07-01'' [] demo_tariffs_us
       = (Num 0, ''None'')"
  by (simp add: compute_tariff_rate_precedence resolveTariffRate_def override_tier_def
      scenario_tier_def default_tier_def demo_tariffs_us_def demo_overrides_def cell_eq_def)

text \<open>
  With at most one row per key, the override tier answers with a rate exactly when
  some row of the table carries the key and that rate.
\<close>

lemma override_tier_any_row:
  assumes "length (candidate_rows cls oc ti) \<le> 1"
  shows "(override_tier cls oc ti = Some u)
         = (\<exists>r \<in> set ti. cell_eq (tariff_input.ComponentClass r) cls
                \<and> cell_eq (tariff_input.OriginCountry r) oc \<and> UserRate_pct r = Num u)"
proof -
  let ?P = "\<lambda>r. cell_eq (tariff_input.ComponentClass r) cls
                \<and> cell_eq (tariff_input.OriginCountry r) oc"
  show ?thesis
  proof (cases "filter ?P ti")
    case Nil
    then have "find ?P ti = None" by (simp add: find_filter_Nil)
    moreover from Nil have "\<forall>r \<in> set ti. \<not> ?P r" by (simp add: filter_empty_conv)
    ultimately show ?thesis by (auto simp: override_tier_def)
  next
    case (Cons r rs)
    with assms have rs: "rs = []" by (simp add: candidate_rows_def)
    from Cons have found: "find ?P ti = Some r" using find_filter_hd [of ?P ti] by simp
    have single: "set (filter ?P ti) = {r}" using Cons rs by simp
    have mem: "r \<in> set ti \<and> ?P r"
    proof -
      from single have "r \<in> set (filter ?P ti)" by simp
      then show ?thesis by simp
    qed
    have only: "r' = r" if "r' \<in> set ti" and "?P r'" for r'
    proof -
      from that have "r' \<in> set (filter ?P ti)" by simp
      with single show ?thesis by simp
    qed
    have rhs: "(\<exists>r' \<in> set ti. ?P r' \<and> UserRate_pct r' = Num u) = (UserRate_pct r = Num u)"
    proof
      assume "\<exists>r' \<in> set ti. ?P r' \<and> UserRate_pct r' = Num u"
      then obtain r' where "r' \<in> set ti" and "?P r'" and "UserRate_pct r' = Num u" by blast
      with only [of r'] show "UserRate_pct r = Num u" by simp
    next
      assume "UserRate_pct r = Num u"
      with mem show "\<exists>r' \<in> set ti. ?P r' \<and> UserRate_pct r' = Num u" by blast
    qed
    have lhs: "(override_tier cls oc ti = Some u) = (UserRate_pct r = Num u)"
      using found by (cases "UserRate_pct r") (simp_all add: override_tier_def)
    from lhs rhs show ?thesis by simp
  qed
qed

section \<open>Absent currencies\<close>

lemma fx_get_absent: "code \<notin> dom fx \<Longrightarrow> fx_get fx code dflt = dflt"
  by (auto simp: fx_get_def dom_def split: option.splits)

lemma fx_get_upd_same: "fx_get (fx(code \<mapsto> r)) code dflt = r"
  by (simp add: fx_get_def)

lemma fdiv_one: "fdiv a (Num 1) = Inr a"
  by (cases a) simp_all

lemma usd_to_chf_absent:
  "''CHF'' \<notin> dom fx \<Longrightarrow> usd_to_chf a fx = Inr (if isna a then Num 0 else a)"
  by (simp add: usd_to_chf_def fx_get_absent fdiv_one)

lemma usd_to_chf_as_if_one:
  "''CHF'' \<notin> dom fx \<Longrightarrow> usd_to_chf a fx = usd_to_chf a (fx(''CHF'' \<mapsto> Num 1))"
  by (simp add: usd_to_chf_def fx_get_absent fx_get_upd_same)

lemma local_to_chf_absent_is_usd:
  "cur \<notin> dom fx \<Longrightarrow> local_to_chf a cur fx = local_to_chf a ''USD'' fx"
  by (auto simp: local_to_chf_def fx_get_def dom_def split: option.splits)

lemma usd_to_chf_upd_other:
  "cur \<noteq> ''CHF'' \<Longrightarrow> usd_to_chf a (fx(cur \<mapsto> r)) = usd_to_chf a fx"
  by (simp add: usd_to_chf_def fx_get_def)

lemma local_to_chf_as_if_one:
  assumes "cur \<notin> dom fx" and "fx_get fx ''USD'' (Num 1) = Num 1"
  shows "local_to_chf a cur fx = local_to_chf a cur (fx(cur \<mapsto> Num 1))"
proof (cases "cur = ''CHF''")
  case True
  with assms show ?thesis
    by (simp add: local_to_chf_def fx_get_absent fx_get_upd_same Let_def usd_to_chf_as_if_one)
next
  case False
  with assms show ?thesis
    by (simp add: local_to_chf_def fx_get_absent fx_get_upd_same Let_def usd_to_chf_upd_other)
qed

text \<open>
  Claim C4, as stated: a currency code absent from the FX table converts as if its
  rate were 1.0. It fails when the table lists USD at another rate than 1.0, because
  the absent code takes the table's USD rate: with USD at 2.0 and no entry for CNY,
  10 CNY convert to 20 and not to the 10 that a CNY rate of 1.0 gives.
\<close>

theorem absent_currency_counterexample:
  "''CNY'' \<notin> dom (map_of [(''USD'', Num 2)])
   \<and> local_to_chf (Num 10) ''CNY'' (map_of [(''USD'', Num 2)]) = Inr (Num 20)
   \<and> local_to_chf (Num 10) ''CNY'' ((map_of [(''USD'', Num 2)])(''CNY'' \<mapsto> Num 1))
       = Inr (Num 10)"
  by (simp add: local_to_chf_def usd_to_chf_def fx_get_def times_num_def)

text \<open>
  Claim C4, amended. For every amount and every currency code absent from the FX
  table, conversion from that code is conversion from USD: the absent code takes
  the table's USD rate. That rate is 1.0 when the table has no USD entry or lists USD
  at 1.0, and then the conversion is the one a rate of 1.0 for the absent code gives.
  When the reporting currency CHF is absent, conversion to it behaves as if its rate
  were 1.0: a present amount is returned unchanged.
\<close>

theorem absent_currency:
  "(cur \<notin> dom fx \<longrightarrow> local_to_chf a cur fx = local_to_chf a ''USD'' fx)
   \<and> (cur \<notin> dom fx \<and> fx_get fx ''USD'' (Num 1) = Num 1 \<longrightarrow>
        local_to_chf a cur fx = local_to_chf a cur (fx(cur \<mapsto> Num 1)))
   \<and> (''CHF'' \<notin> dom fx \<longrightarrow>
        usd_to_chf a fx = usd_to_chf a (fx(''CHF'' \<mapsto> Num 1))
        \<and> usd_to_chf a fx = Inr (if isna a then Num 0 else a))"
proof (intro conjI impI)
  assume "cur \<notin> dom fx"
  then show "local_to_chf a cur fx = local_to_chf a ''USD'' fx"
    by (rule local_to_chf_absent_is_usd)
next
  assume "cur \<notin> dom fx \<and> fx_get fx ''USD'' (Num 1) = Num 1"
  then show "local_to_chf a cur fx = local_to_chf a cur (fx(cur \<mapsto> Num 1))"
    using local_to_chf_as_if_one by blast
next
  assume "''CHF'' \<notin> dom fx"
  then show "usd_to_chf a fx = usd_to_chf a (fx(''CHF'' \<mapsto> Num 1))"
    by (rule usd_to_chf_as_if_one)
next
  assume "''CHF'' \<notin> dom fx"
  then show "usd_to_chf a fx = Inr (if isna a then Num 0 else a)"
    by (rule usd_to_chf_absent)
qed

theorem absent_currency_witness:
  "local_to_chf (Num 10) ''CNY'' demo_fx = local_to_chf (Num 10) ''USD'' demo_fx
   \<and> local_to_chf (Num 10) ''CNY'' demo_fx
       = local_to_chf (Num 10) ''CNY'' (demo_fx(''CNY'' \<mapsto> Num 1))
   \<and> usd_to_chf (Num 10) (map_of [(''USD'', Num 2)]) = Inr (Num 10)"
proof -
  have h1: "''CNY'' \<notin> dom demo_fx"
    by (simp add: demo_fx_def)
  have h2: "fx_get demo_fx ''USD'' (Num 1) = Num 1"
    by (simp add: demo_fx_def fx_get_def)
  have h3: "''CHF'' \<notin> dom (map_of [(''USD'', Num 2)])"
    by simp
  note A = absent_currency [of "''CNY''" demo_fx "Num 10"]
  note B = absent_currency [of "''CNY''" "map_of [(''USD'', Num 2)]" "Num 10"]
  from A h1 have c1:
    "local_to_chf (Num 10) ''CNY'' demo_fx = local_to_chf (Num 10) ''USD'' demo_fx"
    by blast
  from A h1 h2 have c2: "local_to_chf (Num 10) ''CNY'' demo_fx
      = local_to_chf (Num 10) ''CNY'' (demo_fx(''CNY'' \<mapsto> Num 1))"
    by blast
  from B h3 have "usd_to_chf (Num 10) (map_of [(''USD'', Num 2)])
      = Inr (if isna (Num 10) then Num 0 else Num 10)"
    by blast
  then have c3: "usd_to_chf (Num 10) (map_of [(''USD'', Num 2)]) = Inr (Num 10)"
    by simp
  from c1 c2 c3 show ?thesis by blast
qed

section \<open>The sum of the flow values\<close>

text \<open>
  Claim C2, as stated: for a SKU row of \<^verbatim>\<open>compute_costs\<close>, the cost values of the
  SKU's flow records add up to the landed cost minus the values of the filtered-out
  edges. It fails on the worked data set: the landed cost is 152.5, the only
  filtered-out edge has the value 0, and the three flow records add up to
  111 + 26 + 0.5 = 137.5. The difference is the conversion cost of 15, which is part
  of the landed cost and of no edge.
\<close>

theorem flow_values_sum_counterexample:
  "compute_costs demo ''2025-07-01'' ''US1'' [] False = Inr demo_us_result
   \<and> sku_rollup demo ''2025-07-01'' ''US1'' [] False (Some ''United States'') (Some ''Assembly'')
        ''ACTUATOR_AX100'' = Inr (Some demo_us_pass)
   \<and> map LandedCost_CHF (summary demo_us_result) = [Num (305 / 2)]
   \<and> map cost_value (flows demo_us_result) = [Num 111, Num 26, Num (1 / 2)]
   \<and> map cost_value (filtered_out demo_us_pass) = [Num 0]
   \<and> final_value_dropped demo_us_pass = Num 0
   \<and> sum_list (map cost_value (flows demo_us_result)) = Num (275 / 2)
   \<and> Num (305 / 2) - (sum_list (map cost_value (filtered_out demo_us_pass))
                        + final_value_dropped demo_us_pass) = Num (305 / 2)
   \<and> sum_list (map cost_value (flows demo_us_result))
       \<noteq> Num (305 / 2) - (sum_list (map cost_value (filtered_out demo_us_pass))
                            + final_value_dropped demo_us_pass)"
  by (simp add: demo_us_compute demo_us_rollup)
     (simp add: demo_us_result_def demo_us_row_def demo_us_records_def demo_us_pass_def
      demo_us_totals_def demo_us_entries_def filtered_out_def final_value_dropped_def
      plus_num_def minus_num_def zero_num_def)

text \<open>
  Claim C2, amended. For every SKU row of \<^verbatim>\<open>compute_costs\<close>, the cost values of the
  SKU's flow records, the values of the filtered-out edges and the conversion cost
  add up to the landed cost. The component records are the component entries whose
  cost value is not \<open>\<le> 0\<close>, in BOM order, so that the filtered-out ones are exactly
  those with a cost value \<open>\<le> 0\<close>; the finished-good record follows them exactly
  when outbound logistics plus final tariff is strictly positive. The sum is stated
  without subtraction, so that it also holds where a value is the missing marker.
\<close>

theorem flow_values_sum:
  assumes "compute_costs d sd a ti fees = Inr r" and "rw \<in> set (summary r)"
  shows "\<exists>st p crs frs.
     Sites d a = Some st
     \<and> sku_rollup d sd a ti fees (Country st) (Role st) (summary_row.SKU rw) = Inr (Some p)
     \<and> row p = rw
     \<and> filter (\<lambda>f. flow_entry.SKU f = summary_row.SKU rw) (flows r) = crs @ frs
     \<and> map flow_entry.truncate crs
         = filter (\<lambda>e. \<not> le (cost_value e) (Num 0)) (component_flow_entries (bom_totals p))
     \<and> map cost_value frs
         = (if gt (final_flow_value p) (Num 0) then [final_flow_value p] else [])
     \<and> final_flow_value p = OutboundLogistics_CHF rw + final_tariff_value p
     \<and> sum_list (map cost_value
           (filter (\<lambda>f. flow_entry.SKU f = summary_row.SKU rw) (flows r)))
         + (sum_list (map cost_value (filtered_out p)) + final_value_dropped p)
         + ConversionCost_CHF rw
         = LandedCost_CHF rw"
proof -
  from compute_costs_row [OF assms] obtain st p where
    st: "Sites d a = Some st" and
    pass: "sku_rollup d sd a ti fees (Country st) (Role st) (summary_row.SKU rw) = Inr (Some p)" and
    rw: "row p = rw" and
    fl: "filter (\<lambda>f. flow_entry.SKU f = summary_row.SKU rw) (flows r) = new_records p"
    by blast
  from sku_rollup_Some [OF pass] obtain sku_product :: product and crs frs where
    fv: "final_flow_value p = outbound_cost p + final_tariff_value p" and
    ob: "OutboundLogistics_CHF (row p) = outbound_cost p" and
    cc: "ConversionCost_CHF (row p) = conversion_cost_chf p" and
    lc: "LandedCost_CHF (row p) = landed_cost p" and
    crs: "share_entries (landed_cost p) (component_flow_entries (bom_totals p)) = Inr crs" and
    frs: "final_flow (summary_row.SKU rw) a (Country st) (Role st)
            (final_tariff d sd ti (Country st)) (final_flow_value p) (landed_cost p) = Inr frs" and
    new: "new_records p = crs @ frs"
    by blast
  have kept: "map flow_entry.truncate crs
      = filter (\<lambda>e. \<not> le (cost_value e) (Num 0)) (component_flow_entries (bom_totals p))"
    using crs by (rule share_entries_Inr)
  have "map cost_value (map flow_entry.truncate frs)
      = (if gt (final_flow_value p) (Num 0) then [final_flow_value p] else [])"
    using final_flow_Inr [OF frs] by simp
  then have fin: "map cost_value frs
      = (if gt (final_flow_value p) (Num 0) then [final_flow_value p] else [])"
    by (simp add: cost_value_truncate comp_def)
  have total: "sum_list (map cost_value
           (filter (\<lambda>f. flow_entry.SKU f = summary_row.SKU rw) (flows r)))
         + (sum_list (map cost_value (filtered_out p)) + final_value_dropped p)
         + ConversionCost_CHF rw
         = LandedCost_CHF rw"
  proof -
    from cc rw have cc': "ConversionCost_CHF rw = conversion_cost_chf p" by simp
    from lc rw have lc': "LandedCost_CHF rw = landed_cost p" by simp
    show ?thesis using sku_rollup_sum [OF pass] by (simp add: fl cc' lc')
  qed
  from ob rw have ob': "OutboundLogistics_CHF rw = outbound_cost p" by simp
  from st pass rw fl new kept fin fv ob' total show ?thesis
    by (intro exI [of _ st] exI [of _ p] exI [of _ crs] exI [of _ frs]) simp
qed

theorem flow_values_sum_witness:
  "sum_list (map cost_value
       (filter (\<lambda>f. flow_entry.SKU f = ''ACTUATOR_AX100'') (flows demo_us_result)))
     + (sum_list (map cost_value (filtered_out demo_us_pass)) + final_value_dropped demo_us_pass)
     + Num 15 = Num (305 / 2)"
proof -
  have mem: "demo_us_row \<in> set (summary demo_us_result)"
    by (simp add: demo_us_result_def)
  have sku: "summary_row.SKU demo_us_row = ''ACTUATOR_AX100''"
    by (simp add: demo_us_row_def)
  have site: "Sites demo ''US1''
      = Some \<lparr>Country = Some ''United States'', Role = Some ''Assembly''\<rparr>"
    by (simp add: demo_def demo_sites_def)
  from flow_values_sum [OF demo_us_compute mem] obtain st p where
    st: "Sites demo ''US1'' = Some st" and
    pass: "sku_rollup demo ''2025-07-01'' ''US1'' [] False (Country st) (Role st)
        (summary_row.SKU demo_us_row) = Inr (Some p)" and
    total: "sum_list (map cost_value
           (filter (\<lambda>f. flow_entry.SKU f = summary_row.SKU demo_us_row) (flows demo_us_result)))
         + (sum_list (map cost_value (filtered_out p)) + final_value_dropped p)
         + ConversionCost_CHF demo_us_row
         = LandedCost_CHF demo_us_row"
    by blast
  from st site have "st = \<lparr>Country = Some ''United States'', Role = Some ''Assembly''\<rparr>"
    by simp
  with pass sku demo_us_rollup have "p = demo_us_pass" by simp
  with total sku show ?thesis by (simp add: demo_us_row_def)
qed

section \<open>Lead time\<close>










section \<open>Where tariffs apply\<close>

lemma sku_rollup_not_skipped:
  assumes "Products d sku = Some sku_product" and "option_rows d sku a \<noteq> []"
    and "sku_bom d sku \<noteq> []"
  shows "\<exists>p. sku_rollup d sd a ti fees ac ar sku = Inr (Some p)"
proof -
  obtain po where po: "sku_rollup d sd a ti fees ac ar sku = Inr po"
    using sku_rollup_returns by blast
  have "po \<noteq> None"
  proof
    assume "po = None"
    with po assms show False
      unfolding sku_rollup_def Let_def
      by (auto simp: and_then_eq_Inr split: prod.splits)
  qed
  with po show ?thesis by auto
qed

lemma demo_final_tariff_mx:
  "compute_tariff_rate (Some ''FinalAssembly'') (Some ''Mexico'') ''2025-07-01'' []
       (Tariffs_US demo) = (Num (1 / 20), ''Scenario 2025-07-01'')"
  by (simp add: compute_tariff_rate_def candidate_rows_def scenario_rows_def cell_eq_def
      demo_def demo_tariffs_us_def)

lemma demo_component_tariffs_us:
  "map (\<lambda>b. compute_tariff_rate (bom_component.Class b) (fst (origin_of demo b))
              ''2025-07-01'' [] (Tariffs_US demo))
       (bom_components demo ''ACTUATOR_AX100'')
     = [(Num (1 / 10), ''Scenario 2025-07-01''), (Num 0, ''None''), (Num 0, ''None'')]"
  by (simp add: demo_bom_components)
     (simp add: compute_tariff_rate_def candidate_rows_def scenario_rows_def cell_eq_def
      origin_of_def unresolved_def demo_def demo_tariffs_us_def demo_sites_def)

text \<open>
  Claim C5. In a pass whose assembly country is not the United States, every component
  flow entry carries the tariff (0.0, Outside US), and the one final tariff is what the
  resolver returns for the class FinalAssembly with the assembly country as origin; its
  value is that rate times the sum of material total, inbound logistics total and
  conversion cost. In a pass whose assembly country is the United States the final
  tariff is (0.0, Domestic), and the tariff of the entry of each BOM line is what the
  resolver returns for the line's class and origin country. There is one entry per
  BOM line.
\<close>

theorem tariff_events:
  assumes "sku_rollup d sd a ti fees ac ar sku = Inr (Some p)"
  shows "(ac \<noteq> Some ''United States'' \<longrightarrow>
            (\<forall>e \<in> set (component_flow_entries (bom_totals p)).
               tariff_rate e = Num 0 \<and> tariff_source e = ''Outside US'')
            \<and> (final_tariff_rate p, final_tariff_source p)
                = compute_tariff_rate (Some ''FinalAssembly'') ac sd ti (Tariffs_US d)
            \<and> final_tariff_value p
                = (MaterialCost_CHF (row p) + InboundLogistics_CHF (row p)
                   + ConversionCost_CHF (row p)) * final_tariff_rate p)
     \<and> (ac = Some ''United States'' \<longrightarrow>
            (final_tariff_rate p, final_tariff_source p) = (Num 0, ''Domestic'')
            \<and> map (\<lambda>e. (tariff_rate e, tariff_source e)) (component_flow_entries (bom_totals p))
                = map (\<lambda>b. compute_tariff_rate (bom_component.Class b) (fst (origin_of d b))
                              sd ti (Tariffs_US d))
                    (bom_components d sku))
     \<and> length (component_flow_entries (bom_totals p)) = length (bom_components d sku)"
proof -
  let ?bt = "bom_totals p"
  from sku_rollup_Some [OF assms] obtain sku_product :: product where
    loop: "component_loop d sd a ti fees ac ar sku (yield_rate_of (hd (option_rows d sku a)))
           totals0 (bom_components d sku) = Inr ?bt" and
    fin: "(final_tariff_rate p, final_tariff_source p) = final_tariff d sd ti ac" and
    fval: "final_tariff_value p
         = (material_total ?bt + inbound_logistics_total ?bt + conversion_cost_chf p)
           * final_tariff_rate p" and
    m: "MaterialCost_CHF (row p) = material_total ?bt" and
    i: "InboundLogistics_CHF (row p) = inbound_logistics_total ?bt" and
    c: "ConversionCost_CHF (row p) = conversion_cost_chf p"
    by blast
  from component_loop_Inr [OF loop] have ts:
    "map (\<lambda>e. (tariff_rate e, tariff_source e)) (component_flow_entries ?bt)
       = map (\<lambda>b. component_tariff d sd ti ac (bom_component.Class b) (fst (origin_of d b)))
           (bom_components d sku)"
    by (auto simp: totals0_def)
  from ts have len: "length (component_flow_entries ?bt) = length (bom_components d sku)"
    using map_eq_imp_length_eq by blast
  have outside: "\<forall>e \<in> set (component_flow_entries ?bt).
      tariff_rate e = Num 0 \<and> tariff_source e = ''Outside US''"
    if "ac \<noteq> Some ''United States''"
  proof
    fix e assume "e \<in> set (component_flow_entries ?bt)"
    then have "(tariff_rate e, tariff_source e)
        \<in> set (map (\<lambda>e. (tariff_rate e, tariff_source e)) (component_flow_entries ?bt))"
      by simp
    with ts that have "(tariff_rate e, tariff_source e) = (Num 0, ''Outside US'')"
      by (auto simp: component_tariff_def)
    then show "tariff_rate e = Num 0 \<and> tariff_source e = ''Outside US''" by simp
  qed
  have us: "map (\<lambda>e. (tariff_rate e, tariff_source e)) (component_flow_entries ?bt)
      = map (\<lambda>b. compute_tariff_rate (bom_component.Class b) (fst (origin_of d b))
                              sd ti (Tariffs_US d)) (bom_components d sku)"
    if "ac = Some ''United States''"
    using ts that by (simp add: component_tariff_def)
  from fin have fin_out: "(final_tariff_rate p, final_tariff_source p)
      = compute_tariff_rate (Some ''FinalAssembly'') ac sd ti (Tariffs_US d)"
    if "ac \<noteq> Some ''United States''"
    using that by (simp add: final_tariff_def)
  from fin have fin_us: "(final_tariff_rate p, final_tariff_source p) = (Num 0, ''Domestic'')"
    if "ac = Some ''United States''"
    using that by (simp add: final_tariff_def)
  from fval m i c have fval': "final_tariff_value p
      = (MaterialCost_CHF (row p) + InboundLogistics_CHF (row p) + ConversionCost_CHF (row p))
        * final_tariff_rate p"
    by simp
  from outside us fin_out fin_us fval' len show ?thesis by blast
qed

theorem tariff_events_witness:
  "(final_tariff_rate demo_us_pass, final_tariff_source demo_us_pass) = (Num 0, ''Domestic'')
   \<and> map (\<lambda>e. (tariff_rate e, tariff_source e)) (component_flow_entries (bom_totals demo_us_pass))
       = [(Num (1 / 10), ''Scenario 2025-07-01''), (Num 0, ''None''), (Num 0, ''None'')]
   \<and> (\<exists>p. sku_rollup demo ''2025-07-01'' ''MX1'' [] False (Some ''Mexico'') (Some ''Assembly'')
             ''ACTUATOR_AX100'' = Inr (Some p)
          \<and> list_all (\<lambda>e. tariff_rate e = Num 0 \<and> tariff_source e = ''Outside US'')
               (component_flow_entries (bom_totals p))
          \<and> length (component_flow_entries (bom_totals p)) = 3
          \<and> final_tariff_rate p = Num (1 / 20)
          \<and> final_tariff_source p = ''Scenario 2025-07-01'')"
proof -
  note us = tariff_events [OF demo_us_rollup]
  from us have u1:
    "(final_tariff_rate demo_us_pass, final_tariff_source demo_us_pass) = (Num 0, ''Domestic'')"
    by blast
  from us have "map (\<lambda>e. (tariff_rate e, tariff_source e))
        (component_flow_entries (bom_totals demo_us_pass))
      = map (\<lambda>b. compute_tariff_rate (bom_component.Class b) (fst (origin_of demo b))
              ''2025-07-01'' [] (Tariffs_US demo))
          (bom_components demo ''ACTUATOR_AX100'')"
    by blast
  then have u2: "map (\<lambda>e. (tariff_rate e, tariff_source e))
        (component_flow_entries (bom_totals demo_us_pass))
      = [(Num (1 / 10), ''Scenario 2025-07-01''), (Num 0, ''None''), (Num 0, ''None'')]"
    by (simp only: demo_component_tariffs_us)
  have pr: "Products demo ''ACTUATOR_AX100''
      = Some \<lparr>product.UnitWeight_kg = Num 2, ListPrice_USD = Num 1000\<rparr>"
    by (simp add: demo_def demo_products_def)
  have opts: "option_rows demo ''ACTUATOR_AX100'' ''MX1'' \<noteq> []"
    by (simp add: option_rows_def demo_def demo_options_def demo_option_us_def
        demo_option_mx_def cell_eq_def)
  have bom: "sku_bom demo ''ACTUATOR_AX100'' \<noteq> []"
    by (simp add: sku_bom_def demo_def demo_bom_def cell_eq_def)
  from sku_rollup_not_skipped [OF pr opts bom] obtain p where
    pass: "sku_rollup demo ''2025-07-01'' ''MX1'' [] False (Some ''Mexico'') (Some ''Assembly'')
             ''ACTUATOR_AX100'' = Inr (Some p)"
    by blast
  note mx = tariff_events [OF pass]
  have ne: "Some ''Mexico'' \<noteq> Some ''United States''" by simp
  from mx ne have m1: "list_all (\<lambda>e. tariff_rate e = Num 0 \<and> tariff_source e = ''Outside US'')
               (component_flow_entries (bom_totals p))"
    by (simp add: list_all_iff)
  from mx have "length (component_flow_entries (bom_totals p))
      = length (bom_components demo ''ACTUATOR_AX100'')"
    by blast
  then have m2: "length (component_flow_entries (bom_totals p)) = 3"
    by (simp add: demo_bom_components)
  from mx ne have "(final_tariff_rate p, final_tariff_source p)
      = compute_tariff_rate (Some ''FinalAssembly'') (Some ''Mexico'') ''2025-07-01'' []
          (Tariffs_US demo)"
    by blast
  then have m3: "final_tariff_rate p = Num (1 / 20) \<and> final_tariff_source p = ''Scenario 2025-07-01''"
    by (simp add: demo_final_tariff_mx)
  from u1 u2 pass m1 m2 m3 show ?thesis by blast
qed

section \<open>Unresolved parts\<close>

lemma cell_eq_missing: "cell_eq x None = False"
  by (auto simp: cell_eq_def)

lemma lane_rows_missing_origin: "lane_rows None ac lanes = []"
  by (simp add: lane_rows_def cell_eq_missing)

lemma compute_tariff_rate_missing:
  "compute_tariff_rate None oc sd ti tus = (Num 0, ''None'')"
  by (simp add: compute_tariff_rate_def candidate_rows_def scenario_rows_def cell_eq_missing)

lemma num_add_zero: "x + Num 0 = (x :: num)"
  using add_0_right [of x] by (simp add: zero_num_def)

lemma unresolved_step:
  assumes "\<not> falsy y"
  shows "\<exists>e. component_step d sd a ti fees ac ar sku y acc (unresolved b)
           = Inr (acc\<lparr>component_leads := component_leads acc @ [Num 0],
                      component_flow_entries := component_flow_entries acc @ [e]\<rparr>)
         \<and> cost_value e = Num 0 \<and> tariff_rate e = Num 0
         \<and> component e = bom_line.PartID b"
proof -
  obtain q where q: "fdiv (bom_line.Qty b) y = Inr q"
    using fdiv_returns [OF assms] by blast
  have fields: "bom_component.Qty (unresolved b) = bom_line.Qty b"
    "bom_component.UnitWeight_kg (unresolved b) = NaN"
    "bom_component.BasePrice_local (unresolved b) = NaN"
    "bom_component.OriginSiteID (unresolved b) = None"
    "bom_component.Class (unresolved b) = None"
    "bom_component.PartID (unresolved b) = bom_line.PartID b"
    by (simp_all add: unresolved_def)
  have origin: "origin_of d (unresolved b) = (None, None)"
    by (simp add: origin_of_def unresolved_def)
  have nan: "NaN * q = NaN"
    by (simp add: times_num_def)
  have mat: "local_to_chf NaN cur (FX d) = Inr (Num 0)" for cur
    by (simp add: local_to_chf_def)
  have leg: "inbound_leg d fees None ac w = Inr (Num 0, Num 0)" for w
    by (simp add: inbound_leg_def lane_rows_missing_origin)
  have tar: "fst (component_tariff d sd ti ac None None) = Num 0"
    by (simp add: component_tariff_def compute_tariff_rate_missing)
  have zz: "Num 0 * Num 0 = Num 0" "Num 0 + Num 0 = Num 0"
    by (simp_all add: times_num_def plus_num_def)
  let ?e = "\<lparr>flow_entry.SKU = sku, component = bom_line.PartID b, from_site = None,
            to_site = a, from_country = None, to_country = ac, from_role = None,
            to_role = ar, tariff_rate = Num 0,
            tariff_source = snd (component_tariff d sd ti ac None None),
            cost_value = Num 0\<rparr>"
  have "component_step d sd a ti fees ac ar sku y acc (unresolved b)
      = Inr (acc\<lparr>component_leads := component_leads acc @ [Num 0],
                 component_flow_entries := component_flow_entries acc @ [?e]\<rparr>)"
    by (cases acc)
       (simp add: component_step_def fields q origin nan mat leg tar zz Let_def num_add_zero)
  then show ?thesis by (intro exI [of _ ?e]) simp
qed

text \<open>
  Claim C8. A BOM line whose part identifier matches no Component row is merged into
  one row with every component column missing. The pass over that row raises nothing,
  whatever the yield of the assembly option is; it leaves the material, logistics and
  tariff totals as they were, records a lead time of 0 and appends a flow entry with
  cost value 0 and tariff rate 0, which the output loop then skips. The weight of
  the line is the missing marker, but it enters no total: it is read only to price a
  lane, and a row without an origin has no lane. With a known assembly site the
  whole call returns a result.
\<close>

theorem unresolved_part:
  assumes "\<forall>c \<in> set (Components d). component.PartID c \<noteq> bom_line.PartID b"
  shows "merge_line d b = [unresolved b]
     \<and> (\<exists>e. component_step d sd a ti fees ac ar sku (yield_rate_of opt) acc (unresolved b)
               = Inr (acc\<lparr>component_leads := component_leads acc @ [Num 0],
                          component_flow_entries := component_flow_entries acc @ [e]\<rparr>)
             \<and> cost_value e = Num 0 \<and> tariff_rate e = Num 0
             \<and> component e = bom_line.PartID b)
     \<and> (a \<in> dom (Sites d)) = (\<exists>r. compute_costs d sd a ti fees = Inr r)"
proof -
  from assms have "filter (\<lambda>c. component.PartID c = bom_line.PartID b) (Components d) = []"
    by (simp add: filter_empty_conv)
  then have m: "merge_line d b = [unresolved b]"
    by (simp add: merge_line_def)
  have r: "(a \<in> dom (Sites d)) = (\<exists>r. compute_costs d sd a ti fees = Inr r)"
  proof (cases "Sites d a")
    case None
    then show ?thesis by (simp add: compute_costs_def dom_def)
  next
    case (Some st)
    with compute_costs_known_site [OF Some] show ?thesis by (auto simp: dom_def)
  qed
  from m unresolved_step [OF yield_rate_truthy] r show ?thesis by blast
qed

theorem unresolved_part_witness:
  "merge_line demo (demo_bom ! 2) = [unresolved (demo_bom ! 2)]
   \<and> (\<exists>e. component_step demo ''2025-07-01'' ''US1'' [] False (Some ''United States'')
              (Some ''Assembly'') ''ACTUATOR_AX100'' (yield_rate_of demo_option_us) demo_us_totals
              (unresolved (demo_bom ! 2))
            = Inr (demo_us_totals
                     \<lparr>component_leads := component_leads demo_us_totals @ [Num 0],
                      component_flow_entries := component_flow_entries demo_us_totals @ [e]\<rparr>)
          \<and> cost_value e = Num 0 \<and> tariff_rate e = Num 0 \<and> component e = Some ''GHOST'')
   \<and> (\<exists>r. compute_costs demo ''2025-07-01'' ''US1'' [] False = Inr r)"
proof -
  have ghost: "bom_line.PartID (demo_bom ! 2) = Some ''GHOST''"
    by (simp add: demo_bom_def)
  have none: "\<forall>c \<in> set (Components demo). component.PartID c \<noteq> bom_line.PartID (demo_bom ! 2)"
    by (simp add: ghost) (simp add: demo_def demo_components_def)
  have site: "''US1'' \<in> dom (Sites demo)"
    by (simp add: demo_def demo_sites_def)
  note A = unresolved_part [OF none, of "''2025-07-01''" "''US1''" "[]" False
      "Some ''United States''" "Some ''Assembly''" "''ACTUATOR_AX100''" demo_option_us
      demo_us_totals]
  from A have a1: "merge_line demo (demo_bom ! 2) = [unresolved (demo_bom ! 2)]" by blast
  from A ghost have a2: "\<exists>e. component_step demo ''2025-07-01'' ''US1'' [] False
              (Some ''United States'')
              (Some ''Assembly'') ''ACTUATOR_AX100'' (yield_rate_of demo_option_us) demo_us_totals
              (unresolved (demo_bom ! 2))
            = Inr (demo_us_totals
                     \<lparr>component_leads := component_leads demo_us_totals @ [Num 0],
                      component_flow_entries := component_flow_entries demo_us_totals @ [e]\<rparr>)
          \<and> cost_value e = Num 0 \<and> tariff_rate e = Num 0 \<and> component e = Some ''GHOST''"
    by simp
  from A site have a3: "\<exists>r. compute_costs demo ''2025-07-01'' ''US1'' [] False = Inr r"
    by blast
  from a1 a2 a3 show ?thesis by blast
qed

section \<open>A reporting currency worth nothing\<close>

lemma usd_to_chf_zero_rate: "fx ''CHF'' = Some (Num 0) \<Longrightarrow> usd_to_chf x fx = Inr (Num 0)"
  by (simp add: usd_to_chf_def fx_get_def)

lemma local_to_chf_zero_rate:
  "fx ''CHF'' = Some (Num 0) \<Longrightarrow> local_to_chf x cur fx = Inr (Num 0)"
  by (simp add: local_to_chf_def usd_to_chf_zero_rate Let_def)

lemma inbound_leg_zero_rate:
  assumes "FX d ''CHF'' = Some (Num 0)" and "inbound_leg d fees oc ac w = Inr (c, l)"
  shows "c = Num 0"
  using assms(2)
  by (auto simp: inbound_leg_def Let_def usd_to_chf_zero_rate [where fx = "FX d", OF assms(1)] split: if_splits)

lemma outbound_leg_zero_rate:
  assumes "FX d ''CHF'' = Some (Num 0)" and "outbound_leg d fees ac pr = Inr (c, l)"
  shows "c = Num 0"
  using assms(2)
  by (auto simp: outbound_leg_def Let_def usd_to_chf_zero_rate [where fx = "FX d", OF assms(1)] split: if_splits)

lemma pct_numeric: "\<not> isna x \<Longrightarrow> \<exists>v. pct x = Num v"
proof (cases x)
  case (Num r)
  then show ?thesis by (intro exI [of _ "r / 100"]) simp
next
  case NaN
  assume "\<not> isna x"
  with NaN show ?thesis by simp
qed

lemma compute_tariff_rate_numeric: "\<exists>v. fst (compute_tariff_rate cls oc sd ti tus) = Num v"
  by (simp add: compute_tariff_rate_def Let_def pct_numeric)

lemma component_tariff_numeric: "\<exists>v. fst (component_tariff d sd ti ac cls oc) = Num v"
  by (simp add: component_tariff_def compute_tariff_rate_numeric)

lemma final_tariff_numeric: "\<exists>v. fst (final_tariff d sd ti ac) = Num v"
  by (simp add: final_tariff_def compute_tariff_rate_numeric)

lemma zero_times_numeric: "Num 0 * Num v = Num 0"
  by (simp add: times_num_def)

lemma component_step_zero_rate:
  assumes "FX d ''CHF'' = Some (Num 0)"
    and "component_step d sd a ti fees ac ar sku y acc bom_row = Inr acc'"
  shows "material_total acc' = material_total acc
     \<and> inbound_logistics_total acc' = inbound_logistics_total acc
     \<and> component_tariffs_total acc' = component_tariffs_total acc
     \<and> (\<exists>e. component_flow_entries acc' = component_flow_entries acc @ [e]
            \<and> cost_value e = Num 0)"
proof -
  let ?oc = "fst (origin_of d bom_row)"
  obtain v where v: "fst (component_tariff d sd ti ac (bom_component.Class bom_row) ?oc) = Num v"
    using component_tariff_numeric by blast
  from assms(2) obtain q c l where
    leg: "inbound_leg d fees ?oc ac (q * bom_component.UnitWeight_kg bom_row) = Inr (c, l)" and
    acc': "acc' =
      \<lparr>material_total = material_total acc + Num 0,
       inbound_logistics_total = inbound_logistics_total acc + c,
       component_tariffs_total = component_tariffs_total acc + Num 0 * Num v,
       component_leads = component_leads acc @ [l],
       component_flow_entries = component_flow_entries acc @
         [\<lparr>flow_entry.SKU = sku, component = bom_component.PartID bom_row,
           from_site = bom_component.OriginSiteID bom_row,
           to_site = a, from_country = ?oc, to_country = ac,
           from_role = snd (origin_of d bom_row), to_role = ar, tariff_rate = Num v,
           tariff_source = snd (component_tariff d sd ti ac (bom_component.Class bom_row) ?oc),
           cost_value = Num 0 + c + Num 0 * Num v\<rparr>]\<rparr>"
    by (auto simp: component_step_def Let_def and_then_eq_Inr v
        local_to_chf_zero_rate [where fx = "FX d", OF assms(1)])
  from inbound_leg_zero_rate [OF assms(1) leg] have c: "c = Num 0" .
  show ?thesis
    by (simp add: acc' c zero_times_numeric num_add_zero)
qed

lemma component_loop_zero_rate:
  assumes "FX d ''CHF'' = Some (Num 0)"
    and "component_loop d sd a ti fees ac ar sku y acc bom_rows = Inr acc'"
  shows "material_total acc' = material_total acc
     \<and> inbound_logistics_total acc' = inbound_logistics_total acc
     \<and> component_tariffs_total acc' = component_tariffs_total acc
     \<and> (\<exists>es. component_flow_entries acc' = component_flow_entries acc @ es
            \<and> (\<forall>e \<in> set es. cost_value e = Num 0))"
  using assms(2)
proof (induction bom_rows arbitrary: acc)
  case Nil
  then show ?case by simp
next
  case (Cons r rs)
  from Cons.prems obtain acc1 where
    step: "component_step d sd a ti fees ac ar sku y acc r = Inr acc1" and
    rest: "component_loop d sd a ti fees ac ar sku y acc1 rs = Inr acc'"
    by (auto simp: and_then_eq_Inr)
  from component_step_zero_rate [OF assms(1) step] obtain e where
    s1: "material_total acc1 = material_total acc"
        "inbound_logistics_total acc1 = inbound_logistics_total acc"
        "component_tariffs_total acc1 = component_tariffs_total acc"
        "component_flow_entries acc1 = component_flow_entries acc @ [e]"
        "cost_value e = Num 0"
    by blast
  from Cons.IH [OF rest] obtain es where
    s2: "material_total acc' = material_total acc1"
        "inbound_logistics_total acc' = inbound_logistics_total acc1"
        "component_tariffs_total acc' = component_tariffs_total acc1"
        "component_flow_entries acc' = component_flow_entries acc1 @ es"
        "\<forall>e \<in> set es. cost_value e = Num 0"
    by blast
  have "component_flow_entries acc' = component_flow_entries acc @ (e # es)
      \<and> (\<forall>x \<in> set (e # es). cost_value x = Num 0)"
    using s1 s2 by simp
  with s1 s2 show ?case by (metis (no_types, lifting))
qed

lemma map_truncate_Nil: "map flow_entry.truncate rs = [] \<Longrightarrow> rs = []"
  by simp

lemma sku_rollup_zero_rate:
  assumes z: "FX d ''CHF'' = Some (Num 0)"
    and pass: "sku_rollup d sd a ti fees ac ar sku = Inr (Some p)"
  shows "MaterialCost_CHF (row p) = Num 0 \<and> InboundLogistics_CHF (row p) = Num 0
     \<and> OutboundLogistics_CHF (row p) = Num 0 \<and> Tariffs_CHF (row p) = Num 0
     \<and> ConversionCost_CHF (row p) = Num 0 \<and> LandedCost_CHF (row p) = Num 0
     \<and> ListPrice_CHF (row p) = Num 0 \<and> Margin_CHF (row p) = Num 0
     \<and> MarginPct (row p) = Num 0 \<and> new_records p = []"
proof -
  let ?bt = "bom_totals p"
  from sku_rollup_Some [OF pass] obtain pr crs frs where
    conv: "usd_to_chf (BaseConvCost_USD (hd (option_rows d sku a))) (FX d)
         = Inr (conversion_cost_chf p)" and
    loop: "component_loop d sd a ti fees ac ar sku (yield_rate_of (hd (option_rows d sku a)))
           totals0 (bom_components d sku) = Inr ?bt" and
    ob: "outbound_leg d fees ac pr = Inr (outbound_cost p, outbound_lead p)" and
    fin: "(final_tariff_rate p, final_tariff_source p) = final_tariff d sd ti ac" and
    fval: "final_tariff_value p
         = (material_total ?bt + inbound_logistics_total ?bt + conversion_cost_chf p)
           * final_tariff_rate p" and
    landed: "landed_cost p
         = material_total ?bt + (inbound_logistics_total ?bt + outbound_cost p)
           + (component_tariffs_total ?bt + final_tariff_value p) + conversion_cost_chf p" and
    fv: "final_flow_value p = outbound_cost p + final_tariff_value p" and
    lp: "usd_to_chf (ListPrice_USD pr) (FX d) = Inr (ListPrice_CHF (row p))" and
    mp: "ratio_or_zero (ListPrice_CHF (row p) - landed_cost p) (ListPrice_CHF (row p))
         = Inr (MarginPct (row p))" and
    rowf: "MaterialCost_CHF (row p) = material_total ?bt"
      "InboundLogistics_CHF (row p) = inbound_logistics_total ?bt"
      "OutboundLogistics_CHF (row p) = outbound_cost p"
      "Tariffs_CHF (row p) = component_tariffs_total ?bt + final_tariff_value p"
      "ConversionCost_CHF (row p) = conversion_cost_chf p"
      "LandedCost_CHF (row p) = landed_cost p"
      "Margin_CHF (row p) = ListPrice_CHF (row p) - landed_cost p" and
    crs: "share_entries (landed_cost p) (component_flow_entries ?bt) = Inr crs" and
    frs: "final_flow sku a ac ar (final_tariff d sd ti ac) (final_flow_value p) (landed_cost p)
         = Inr frs" and
    new: "new_records p = crs @ frs"
    by blast
  have zz: "Num 0 + Num 0 = Num 0" "Num 0 - Num 0 = Num 0"
    by (simp_all add: plus_num_def minus_num_def)
  from conv have c0: "conversion_cost_chf p = Num 0"
    by (simp add: usd_to_chf_zero_rate [where fx = "FX d", OF z])
  from lp have l0: "ListPrice_CHF (row p) = Num 0"
    by (simp add: usd_to_chf_zero_rate [where fx = "FX d", OF z])
  from component_loop_zero_rate [OF z loop] have
    m0: "material_total ?bt = Num 0" and i0: "inbound_logistics_total ?bt = Num 0" and
    t0: "component_tariffs_total ?bt = Num 0" and
    e0: "\<forall>e \<in> set (component_flow_entries ?bt). cost_value e = Num 0"
    by (auto simp: totals0_def)
  from outbound_leg_zero_rate [OF z ob] have o0: "outbound_cost p = Num 0" .
  obtain v where "fst (final_tariff d sd ti ac) = Num v"
    using final_tariff_numeric by blast
  with fin have r: "final_tariff_rate p = Num v" by (metis fst_conv)
  from fval have f0: "final_tariff_value p = Num 0"
    by (simp add: m0 i0 c0 r zz zero_times_numeric)
  from landed have lc0: "landed_cost p = Num 0"
    by (simp add: m0 i0 t0 o0 f0 c0 zz)
  from fv have fv0: "final_flow_value p = Num 0"
    by (simp add: o0 f0 zz)
  from mp have mp0: "MarginPct (row p) = Num 0"
    by (simp add: l0 ratio_or_zero_def)
  have "filter (\<lambda>e. \<not> le (cost_value e) (Num 0)) (component_flow_entries ?bt) = []"
    using e0 by (simp add: filter_empty_conv)
  with share_entries_Inr [OF crs] have crs0: "crs = []" by simp
  from final_flow_Inr [OF frs] have frs0: "frs = []" by (simp add: fv0)
  from rowf m0 i0 t0 o0 f0 c0 lc0 l0 mp0 crs0 frs0 new zz show ?thesis
    by simp
qed

text \<open>
  Claim C10. When the FX table lists CHF at a rate of 0, conversion to the reporting
  currency returns 0.0 for every amount, from USD and from any local currency, and
  raises no division error. Under such a table the engine returns for every known
  site, every cost column of every summary row is 0.0, margin and margin share
  included, and no flow record is emitted.
\<close>

theorem zero_reporting_rate:
  assumes "FX d ''CHF'' = Some (Num 0)"
  shows "usd_to_chf x (FX d) = Inr (Num 0)
     \<and> local_to_chf x cur (FX d) = Inr (Num 0)
     \<and> (\<exists>r. compute_costs d sd a ti fees = Inr r) = (a \<in> dom (Sites d))
     \<and> (\<forall>r. compute_costs d sd a ti fees = Inr r \<longrightarrow>
           flows r = []
           \<and> (\<forall>rw \<in> set (summary r).
                 MaterialCost_CHF rw = Num 0 \<and> InboundLogistics_CHF rw = Num 0
                 \<and> OutboundLogistics_CHF rw = Num 0 \<and> Tariffs_CHF rw = Num 0
                 \<and> ConversionCost_CHF rw = Num 0 \<and> LandedCost_CHF rw = Num 0
                 \<and> ListPrice_CHF rw = Num 0 \<and> Margin_CHF rw = Num 0
                 \<and> MarginPct rw = Num 0))"
proof -
  have conv: "usd_to_chf x (FX d) = Inr (Num 0)"
    using assms by (rule usd_to_chf_zero_rate)
  have loc: "local_to_chf x cur (FX d) = Inr (Num 0)"
    using assms by (rule local_to_chf_zero_rate)
  have ret: "(\<exists>r. compute_costs d sd a ti fees = Inr r) = (a \<in> dom (Sites d))"
  proof (cases "Sites d a")
    case None
    then show ?thesis by (simp add: compute_costs_def dom_def)
  next
    case (Some st)
    with compute_costs_known_site [OF Some] show ?thesis by (auto simp: dom_def)
  qed
  have out: "flows r = []
           \<and> (\<forall>rw \<in> set (summary r).
                 MaterialCost_CHF rw = Num 0 \<and> InboundLogistics_CHF rw = Num 0
                 \<and> OutboundLogistics_CHF rw = Num 0 \<and> Tariffs_CHF rw = Num 0
                 \<and> ConversionCost_CHF rw = Num 0 \<and> LandedCost_CHF rw = Num 0
                 \<and> ListPrice_CHF rw = Num 0 \<and> Margin_CHF rw = Num 0
                 \<and> MarginPct rw = Num 0)"
    if run: "compute_costs d sd a ti fees = Inr r" for r
  proof -
    from compute_costs_Inr [OF run] obtain st p1 p2 where
      st: "Sites d a = Some st" and
      p1: "sku_rollup d sd a ti fees (Country st) (Role st) ''ACTUATOR_AX100'' = Inr p1" and
      p2: "sku_rollup d sd a ti fees (Country st) (Role st) ''ACTUATOR_AX200'' = Inr p2" and
      sm: "summary r = (case p1 of None \<Rightarrow> [] | Some p \<Rightarrow> [row p])
                     @ (case p2 of None \<Rightarrow> [] | Some p \<Rightarrow> [row p])" and
      fl: "flows r = (case p1 of None \<Rightarrow> [] | Some p \<Rightarrow> new_records p)
                   @ (case p2 of None \<Rightarrow> [] | Some p \<Rightarrow> new_records p)"
      by blast
    have f1: "(case p1 of None \<Rightarrow> [] | Some p \<Rightarrow> new_records p) = []"
      using p1 sku_rollup_zero_rate [OF assms] by (cases p1) auto
    have f2: "(case p2 of None \<Rightarrow> [] | Some p \<Rightarrow> new_records p) = []"
      using p2 sku_rollup_zero_rate [OF assms] by (cases p2) auto
    have rows: "MaterialCost_CHF rw = Num 0 \<and> InboundLogistics_CHF rw = Num 0
                 \<and> OutboundLogistics_CHF rw = Num 0 \<and> Tariffs_CHF rw = Num 0
                 \<and> ConversionCost_CHF rw = Num 0 \<and> LandedCost_CHF rw = Num 0
                 \<and> ListPrice_CHF rw = Num 0 \<and> Margin_CHF rw = Num 0
                 \<and> MarginPct rw = Num 0"
      if "rw \<in> set (summary r)" for rw
    proof -
      from compute_costs_row [OF run that] obtain st' p where
        "Sites d a = Some st'" and
        "sku_rollup d sd a ti fees (Country st') (Role st') (summary_row.SKU rw) = Inr (Some p)"
        and "row p = rw"
        by blast
      with sku_rollup_zero_rate [OF assms] show ?thesis by blast
    qed
    from f1 f2 fl rows show ?thesis by simp
  qed
  from conv loc ret out show ?thesis by blast
qed

theorem zero_reporting_rate_witness:
  "usd_to_chf (Num 30) (FX (demo\<lparr>FX := [''CHF'' \<mapsto> Num 0]\<rparr>)) = Inr (Num 0)
   \<and> local_to_chf (Num 100) ''CNY'' (FX (demo\<lparr>FX := [''CHF'' \<mapsto> Num 0]\<rparr>)) = Inr (Num 0)
   \<and> (\<exists>r. compute_costs (demo\<lparr>FX := [''CHF'' \<mapsto> Num 0]\<rparr>) ''2025-07-01'' ''US1'' [] False
              = Inr r
          \<and> flows r = [] \<and> summary r \<noteq> []
          \<and> list_all (\<lambda>rw. MaterialCost_CHF rw = Num 0 \<and> Tariffs_CHF rw = Num 0
                           \<and> LandedCost_CHF rw = Num 0 \<and> MarginPct rw = Num 0) (summary r))"
proof -
  let ?d = "demo\<lparr>FX := [''CHF'' \<mapsto> Num 0]\<rparr>"
  have z: "FX ?d ''CHF'' = Some (Num 0)" by simp
  have site: "''US1'' \<in> dom (Sites ?d)"
    by (simp add: demo_def demo_sites_def)
  note A = zero_reporting_rate [OF z, of _ _ "''2025-07-01''" "''US1''" "[]" False]
  from A [of "Num 30" "''CNY''"] have a1: "usd_to_chf (Num 30) (FX ?d) = Inr (Num 0)"
    by blast
  from A [of "Num 100" "''CNY''"] have a2: "local_to_chf (Num 100) ''CNY'' (FX ?d) = Inr (Num 0)"
    by blast
  from A [of "Num 30" "''CNY''"] site obtain r where
    run: "compute_costs ?d ''2025-07-01'' ''US1'' [] False = Inr r"
    by blast
  from A [of "Num 30" "''CNY''"] run have fl: "flows r = []" by blast
  from A [of "Num 30" "''CNY''"] run have rows:
    "list_all (\<lambda>rw. MaterialCost_CHF rw = Num 0 \<and> Tariffs_CHF rw = Num 0
                           \<and> LandedCost_CHF rw = Num 0 \<and> MarginPct rw = Num 0) (summary r)"
    by (simp add: list_all_iff)
  have pr: "Products ?d ''ACTUATOR_AX100''
      = Some \<lparr>product.UnitWeight_kg = Num 2, ListPrice_USD = Num 1000\<rparr>"
    by (simp add: demo_def demo_products_def)
  have opts: "option_rows ?d ''ACTUATOR_AX100'' ''US1'' \<noteq> []"
    by (simp add: option_rows_def demo_def demo_options_def demo_option_us_def
        demo_option_mx_def cell_eq_def)
  have bom: "sku_bom ?d ''ACTUATOR_AX100'' \<noteq> []"
    by (simp add: sku_bom_def demo_def demo_bom_def cell_eq_def)
  from compute_costs_Inr [OF run] obtain st p1 p2 where
    st: "Sites ?d ''US1'' = Some st" and
    p1: "sku_rollup ?d ''2025-07-01'' ''US1'' [] False (Country st) (Role st)
           ''ACTUATOR_AX100'' = Inr p1" and
    p2: "sku_rollup ?d ''2025-07-01'' ''US1'' [] False (Country st) (Role st)
           ''ACTUATOR_AX200'' = Inr p2" and
    sm: "summary r = (case p1 of None \<Rightarrow> [] | Some p \<Rightarrow> [row p])
                     @ (case p2 of None \<Rightarrow> [] | Some p \<Rightarrow> [row p])" and
    fl': "flows r = (case p1 of None \<Rightarrow> [] | Some p \<Rightarrow> new_records p)
                   @ (case p2 of None \<Rightarrow> [] | Some p \<Rightarrow> new_records p)"
    by blast
  from sku_rollup_not_skipped [OF pr opts bom, of "''2025-07-01''" "[]" False "Country st" "Role st"]
  obtain p where "sku_rollup ?d ''2025-07-01'' ''US1'' [] False (Country st) (Role st)
           ''ACTUATOR_AX100'' = Inr (Some p)"
    by blast
  with p1 have "p1 = Some p" by simp
  with sm have ne: "summary r \<noteq> []" by simp
  from a1 a2 run fl ne rows show ?thesis by blast
qed

section \<open>Yield\<close>

text \<open>
  The yield rule on every input. The rate that divides the quantities is never zero,
  so the division raises nothing and the pass over a BOM line returns. The rate is 1.0
  for a yield of zero and for a row without the yield field; any other cell is kept
  as it is, the missing marker included.
\<close>

lemma yield_rule:
  "yield_rate_of opt \<noteq> Num 0
   \<and> (Yield opt = None \<or> Yield opt = Some (Num 0) \<longrightarrow> yield_rate_of opt = Num 1)
   \<and> (\<forall>y. Yield opt = Some y \<and> y \<noteq> Num 0 \<longrightarrow> yield_rate_of opt = y)
   \<and> (\<exists>q. fdiv qty (yield_rate_of opt) = Inr q)
   \<and> (\<exists>acc'. component_step d sd a ti fees ac ar sku (yield_rate_of opt) acc bom_row = Inr acc')"
proof -
  have truthy: "\<not> falsy (yield_rate_of opt)" by (rule yield_rate_truthy)
  then have "\<exists>q. fdiv qty (yield_rate_of opt) = Inr q" by (rule fdiv_returns)
  moreover have "yield_rate_of opt \<noteq> Num 0"
    using truthy by auto
  moreover have "\<forall>y. Yield opt = Some y \<and> y \<noteq> Num 0 \<longrightarrow> yield_rate_of opt = y"
  proof (intro allI impI)
    fix y assume "Yield opt = Some y \<and> y \<noteq> Num 0"
    then show "yield_rate_of opt = y" by (cases y) (auto simp: yield_rate_of_def)
  qed
  moreover have "\<exists>acc'. component_step d sd a ti fees ac ar sku (yield_rate_of opt) acc bom_row
      = Inr acc'"
    using truthy by (rule component_step_returns)
  ultimately show ?thesis by (auto simp: yield_rate_of_def)
qed

lemmas demo_yield_tables = demo_with_yield_def demo_tables

lemma demo_yield_bom_components:
  "bom_components (demo_with_yield y) ''ACTUATOR_AX100'' =
     [\<lparr>bom_component.PartID = Some ''MOTOR'', Qty = Num 2, Class = Some ''motor'',
       UnitWeight_kg = Num 1, BasePrice_local = Num 100, OriginSiteID = Some ''CN1'',
       ComponentOrigin = Some ''China''\<rparr>,
      \<lparr>bom_component.PartID = Some ''GEAR'', Qty = Num 1, Class = Some ''gear'',
       UnitWeight_kg = Num 1, BasePrice_local = Num 50, OriginSiteID = Some ''RS1'',
       ComponentOrigin = Some ''Serbia''\<rparr>,
      unresolved (demo_bom ! 2)]"
  by (simp add: bom_components_def sku_bom_def merge_line_def demo_with_yield_def demo_def
      demo_bom_def demo_components_def demo_sites_def joined_def component_origin_def
      cell_eq_def)

lemma demo_mx_loop_unit:
  "\<exists>es. component_loop (demo_with_yield y) ''2025-07-01'' ''MX1'' [] False (Some ''Mexico'')
       (Some ''Assembly'') ''ACTUATOR_AX100'' (Num 1) totals0
       (bom_components (demo_with_yield y) ''ACTUATOR_AX100'')
     = Inr \<lparr>material_total = Num 125, inbound_logistics_total = Num 1,
            component_tariffs_total = Num 0, component_leads = [Num 7, Num 0, Num 0],
            component_flow_entries = es\<rparr>
     \<and> map cost_value es = [Num 101, Num 25, Num 0]"
  by (simp add: demo_yield_bom_components)
     (simp add: engine_defs demo_yield_tables)

lemma demo_mx_loop_blank:
  "\<exists>es. component_loop (demo_with_yield y) ''2025-07-01'' ''MX1'' [] False (Some ''Mexico'')
       (Some ''Assembly'') ''ACTUATOR_AX100'' NaN totals0
       (bom_components (demo_with_yield y) ''ACTUATOR_AX100'')
     = Inr \<lparr>material_total = Num 0, inbound_logistics_total = Num 0,
            component_tariffs_total = Num 0, component_leads = [Num 7, Num 0, Num 0],
            component_flow_entries = es\<rparr>
     \<and> map cost_value es = [Num 0, Num 0, Num 0]"
  by (simp add: demo_yield_bom_components)
     (simp add: engine_defs demo_yield_tables)


lemma demo_mx_rollup:
  assumes loop: "component_loop (demo_with_yield y) ''2025-07-01'' ''MX1'' [] False
       (Some ''Mexico'') (Some ''Assembly'') ''ACTUATOR_AX100''
       (yield_rate_of (demo_option_mx\<lparr>Yield := y\<rparr>)) totals0
       (bom_components (demo_with_yield y) ''ACTUATOR_AX100'') = Inr acc"
  shows "\<exists>p. sku_rollup (demo_with_yield y) ''2025-07-01'' ''MX1'' [] False (Some ''Mexico'')
             (Some ''Assembly'') ''ACTUATOR_AX100'' = Inr (Some p)
           \<and> MaterialCost_CHF (row p) = material_total acc
           \<and> InboundLogistics_CHF (row p) = inbound_logistics_total acc
           \<and> LandedCost_CHF (row p)
               = material_total acc + (inbound_logistics_total acc + Num 1)
                 + (component_tariffs_total acc
                    + (material_total acc + inbound_logistics_total acc + Num 10) * Num (1 / 20))
                 + Num 10"
proof -
  let ?d = "demo_with_yield y"
  let ?sku = "''ACTUATOR_AX100''"
  have pr: "Products ?d ?sku = Some \<lparr>product.UnitWeight_kg = Num 2, ListPrice_USD = Num 1000\<rparr>"
    by (simp add: demo_with_yield_def demo_def demo_products_def)
  have opts: "option_rows ?d ?sku ''MX1'' = [demo_option_mx\<lparr>Yield := y\<rparr>]"
    by (simp add: option_rows_def demo_with_yield_def demo_def demo_option_us_def
        demo_option_mx_def cell_eq_def)
  then have opts_ne: "option_rows ?d ?sku ''MX1'' \<noteq> []" by simp
  have bom: "sku_bom ?d ?sku \<noteq> []"
    by (simp add: sku_bom_def demo_with_yield_def demo_def demo_bom_def cell_eq_def)
  from sku_rollup_not_skipped [OF pr opts_ne bom] obtain p where
    pass: "sku_rollup ?d ''2025-07-01'' ''MX1'' [] False (Some ''Mexico'') (Some ''Assembly'')
             ?sku = Inr (Some p)"
    by blast
  from sku_rollup_Some [OF pass] pr have
    conv: "usd_to_chf (BaseConvCost_USD (hd (option_rows ?d ?sku ''MX1''))) (FX ?d)
         = Inr (conversion_cost_chf p)" and
    lp: "component_loop ?d ''2025-07-01'' ''MX1'' [] False (Some ''Mexico'') (Some ''Assembly'')
           ?sku (yield_rate_of (hd (option_rows ?d ?sku ''MX1''))) totals0
           (bom_components ?d ?sku) = Inr (bom_totals p)" and
    ob: "outbound_leg ?d False (Some ''Mexico'')
           \<lparr>product.UnitWeight_kg = Num 2, ListPrice_USD = Num 1000\<rparr>
         = Inr (outbound_cost p, outbound_lead p)" and
    fin: "(final_tariff_rate p, final_tariff_source p)
         = final_tariff ?d ''2025-07-01'' [] (Some ''Mexico'')" and
    fval: "final_tariff_value p
         = (material_total (bom_totals p) + inbound_logistics_total (bom_totals p)
            + conversion_cost_chf p) * final_tariff_rate p" and
    landed: "landed_cost p
         = material_total (bom_totals p)
           + (inbound_logistics_total (bom_totals p) + outbound_cost p)
           + (component_tariffs_total (bom_totals p) + final_tariff_value p)
           + conversion_cost_chf p" and
    rowf: "MaterialCost_CHF (row p) = material_total (bom_totals p)"
      "InboundLogistics_CHF (row p) = inbound_logistics_total (bom_totals p)"
      "LandedCost_CHF (row p) = landed_cost p"
    by auto
  from lp have "component_loop ?d ''2025-07-01'' ''MX1'' [] False (Some ''Mexico'')
           (Some ''Assembly'') ?sku (yield_rate_of (demo_option_mx\<lparr>Yield := y\<rparr>)) totals0
           (bom_components ?d ?sku) = Inr (bom_totals p)"
    by (simp only: opts list.sel)
  with loop have acc: "bom_totals p = acc" by simp
  from conv have "usd_to_chf (BaseConvCost_USD (demo_option_mx\<lparr>Yield := y\<rparr>)) (FX ?d)
      = Inr (conversion_cost_chf p)"
    by (simp only: opts list.sel)
  then have c: "conversion_cost_chf p = Num 10"
    by (simp add: usd_to_chf_def fx_get_def demo_with_yield_def demo_def demo_fx_def
        demo_option_mx_def)
  from ob have o: "outbound_cost p = Num 1"
    by (simp add: outbound_leg_def lane_rows_def lane_cost_usd_def usd_to_chf_def fx_get_def
        demo_with_yield_def demo_def demo_lanes_def demo_fx_def cell_eq_def times_num_def)
  from fin have r: "final_tariff_rate p = Num (1 / 20)"
    by (simp add: final_tariff_def compute_tariff_rate_def candidate_rows_def
        scenario_rows_def cell_eq_def demo_with_yield_def demo_def demo_tariffs_us_def)
  from pass rowf landed fval acc c o r show ?thesis
    by (intro exI [of _ p]) simp
qed


lemma demo_yield_ax200_skipped:
  "sku_rollup (demo_with_yield y) sd a ti fees ac ar ''ACTUATOR_AX200'' = Inr None"
  by (simp add: sku_rollup_def demo_with_yield_def demo_def demo_products_def)

lemma demo_mx_compute:
  assumes loop: "component_loop (demo_with_yield y) ''2025-07-01'' ''MX1'' [] False
       (Some ''Mexico'') (Some ''Assembly'') ''ACTUATOR_AX100''
       (yield_rate_of (demo_option_mx\<lparr>Yield := y\<rparr>)) totals0
       (bom_components (demo_with_yield y) ''ACTUATOR_AX100'') = Inr acc"
  shows "\<exists>r. compute_costs (demo_with_yield y) ''2025-07-01'' ''MX1'' [] False = Inr r
           \<and> map MaterialCost_CHF (summary r) = [material_total acc]
           \<and> map InboundLogistics_CHF (summary r) = [inbound_logistics_total acc]
           \<and> map LandedCost_CHF (summary r)
               = [material_total acc + (inbound_logistics_total acc + Num 1)
                  + (component_tariffs_total acc
                     + (material_total acc + inbound_logistics_total acc + Num 10)
                       * Num (1 / 20))
                  + Num 10]"
proof -
  let ?d = "demo_with_yield y"
  have site: "Sites ?d ''MX1'' = Some \<lparr>Country = Some ''Mexico'', Role = Some ''Assembly''\<rparr>"
    by (simp add: demo_with_yield_def demo_def demo_sites_def)
  from compute_costs_known_site [OF site] obtain r where
    run: "compute_costs ?d ''2025-07-01'' ''MX1'' [] False = Inr r"
    by blast
  from demo_mx_rollup [OF loop] obtain p where
    pass: "sku_rollup ?d ''2025-07-01'' ''MX1'' [] False (Some ''Mexico'') (Some ''Assembly'')
             ''ACTUATOR_AX100'' = Inr (Some p)" and
    fields: "MaterialCost_CHF (row p) = material_total acc"
      "InboundLogistics_CHF (row p) = inbound_logistics_total acc"
      "LandedCost_CHF (row p)
               = material_total acc + (inbound_logistics_total acc + Num 1)
                 + (component_tariffs_total acc
                    + (material_total acc + inbound_logistics_total acc + Num 10) * Num (1 / 20))
                 + Num 10"
    by blast
  from compute_costs_Inr [OF run] obtain st p1 p2 where
    st: "Sites ?d ''MX1'' = Some st" and
    p1: "sku_rollup ?d ''2025-07-01'' ''MX1'' [] False (Country st) (Role st)
           ''ACTUATOR_AX100'' = Inr p1" and
    p2: "sku_rollup ?d ''2025-07-01'' ''MX1'' [] False (Country st) (Role st)
           ''ACTUATOR_AX200'' = Inr p2" and
    sm: "summary r = (case p1 of None \<Rightarrow> [] | Some p \<Rightarrow> [row p])
                     @ (case p2 of None \<Rightarrow> [] | Some p \<Rightarrow> [row p])" and
    fl: "flows r = (case p1 of None \<Rightarrow> [] | Some p \<Rightarrow> new_records p)
                   @ (case p2 of None \<Rightarrow> [] | Some p \<Rightarrow> new_records p)"
    by blast
  from st site have st': "st = \<lparr>Country = Some ''Mexico'', Role = Some ''Assembly''\<rparr>"
    by simp
  from p1 pass st' have e1: "p1 = Some p" by simp
  from p2 have e2: "p2 = None" by (simp add: demo_yield_ax200_skipped)
  from sm e1 e2 have "summary r = [row p]" by simp
  with run fields show ?thesis by (intro exI [of _ r]) simp
qed

text \<open>
  Claim C6. The yield of an assembly option counts as 1.0 when it is zero or absent, so
  that the division of the quantities never divides by zero. The engine does so for a
  yield of zero, and the division indeed never divides by zero. But a yield cell left
  blank reaches the engine as the missing marker, which is truthy: the rule lets it
  through, every quantity of the product becomes the missing marker, and material and
  inbound logistics cost fall to 0.0. On the worked data set assembled in Mexico, a
  yield of 1.0 gives a material cost of 125 and a landed cost of 143.8; a blank yield
  gives a material cost of 0 and a landed cost of 11.5.
\<close>

theorem blank_yield_zeroes_costs:
  "yield_rate_of (demo_option_mx\<lparr>Yield := Some (Num 0)\<rparr>) = Num 1
   \<and> yield_rate_of (demo_option_mx\<lparr>Yield := Some (Num 1)\<rparr>) = Num 1
   \<and> yield_rate_of (demo_option_mx\<lparr>Yield := Some NaN\<rparr>) = NaN
   \<and> (\<exists>r. compute_costs (demo_with_yield (Some (Num 1))) ''2025-07-01'' ''MX1'' [] False = Inr r
          \<and> map MaterialCost_CHF (summary r) = [Num 125]
          \<and> map InboundLogistics_CHF (summary r) = [Num 1]
          \<and> map LandedCost_CHF (summary r) = [Num (719 / 5)])
   \<and> (\<exists>r. compute_costs (demo_with_yield (Some NaN)) ''2025-07-01'' ''MX1'' [] False = Inr r
          \<and> map MaterialCost_CHF (summary r) = [Num 0]
          \<and> map InboundLogistics_CHF (summary r) = [Num 0]
          \<and> map LandedCost_CHF (summary r) = [Num (23 / 2)])"
proof -
  have y0: "yield_rate_of (demo_option_mx\<lparr>Yield := Some (Num 0)\<rparr>) = Num 1"
    by (simp add: yield_rate_of_def)
  have y1: "yield_rate_of (demo_option_mx\<lparr>Yield := Some (Num 1)\<rparr>) = Num 1"
    by (simp add: yield_rate_of_def)
  have yn: "yield_rate_of (demo_option_mx\<lparr>Yield := Some NaN\<rparr>) = NaN"
    by (simp add: yield_rate_of_def)
  from demo_mx_loop_unit [of "Some (Num 1)"] obtain es where
    "component_loop (demo_with_yield (Some (Num 1))) ''2025-07-01'' ''MX1'' [] False
       (Some ''Mexico'') (Some ''Assembly'') ''ACTUATOR_AX100''
       (yield_rate_of (demo_option_mx\<lparr>Yield := Some (Num 1)\<rparr>)) totals0
       (bom_components (demo_with_yield (Some (Num 1))) ''ACTUATOR_AX100'')
     = Inr \<lparr>material_total = Num 125, inbound_logistics_total = Num 1,
            component_tariffs_total = Num 0, component_leads = [Num 7, Num 0, Num 0],
            component_flow_entries = es\<rparr>"
    by (auto simp only: y1)
  from demo_mx_compute [OF this] have unit:
    "\<exists>r. compute_costs (demo_with_yield (Some (Num 1))) ''2025-07-01'' ''MX1'' [] False = Inr r
          \<and> map MaterialCost_CHF (summary r) = [Num 125]
          \<and> map InboundLogistics_CHF (summary r) = [Num 1]
          \<and> map LandedCost_CHF (summary r) = [Num (719 / 5)]"
    by (simp add: plus_num_def times_num_def)
  from demo_mx_loop_blank [of "Some NaN"] obtain es' where
    "component_loop (demo_with_yield (Some NaN)) ''2025-07-01'' ''MX1'' [] False
       (Some ''Mexico'') (Some ''Assembly'') ''ACTUATOR_AX100''
       (yield_rate_of (demo_option_mx\<lparr>Yield := Some NaN\<rparr>)) totals0
       (bom_components (demo_with_yield (Some NaN)) ''ACTUATOR_AX100'')
     = Inr \<lparr>material_total = Num 0, inbound_logistics_total = Num 0,
            component_tariffs_total = Num 0, component_leads = [Num 7, Num 0, Num 0],
            component_flow_entries = es'\<rparr>"
    by (auto simp only: yn)
  from demo_mx_compute [OF this] have blank:
    "\<exists>r. compute_costs (demo_with_yield (Some NaN)) ''2025-07-01'' ''MX1'' [] False = Inr r
          \<and> map MaterialCost_CHF (summary r) = [Num 0]
          \<and> map InboundLogistics_CHF (summary r) = [Num 0]
          \<and> map LandedCost_CHF (summary r) = [Num (23 / 2)]"
    by (simp add: plus_num_def times_num_def)
  from y0 y1 yn unit blank show ?thesis by blast
qed

end
